theory Spec2Isabelle
  imports Main "HOL-Library.Word" "HOL-Library.Sublist"
begin

section \<open>JavaScript strings\<close>

text \<open>
  A JavaScript string is a sequence of UTF-16 code units; \<open>length\<close>, \<open>substring\<close>,
  \<open>split\<close>, \<open>trim\<close> and the regular expressions of the handler all work on code units.
  A string is modelled as a list of 16-bit words, and \<open>js\<close> embeds an ASCII literal of
  the source.
\<close>

type_synonym cu = "16 word"
type_synonym jsstring = "cu list"

definition js :: "string \<Rightarrow> jsstring" where
  "js s = map of_char s"

abbreviation (input) ch :: "char \<Rightarrow> cu" where
  "ch c \<equiv> of_char c"

text \<open>\<open>s.replace(/c/g, r)\<close> for a one-character pattern and a replacement without \<open>$\<close>.\<close>

definition replaceAll :: "cu \<Rightarrow> jsstring \<Rightarrow> jsstring \<Rightarrow> jsstring" where
  "replaceAll c r s = concat (map (\<lambda>x. if x = c then r else [x]) s)"

text \<open>White space and line terminators of ECMAScript, as \<open>trim\<close> and \<open>\s\<close> see them.\<close>

definition isWhiteSpace :: "cu \<Rightarrow> bool" where
  "isWhiteSpace c \<longleftrightarrow>
     c = 0x09 \<or> c = 0x0A \<or> c = 0x0B \<or> c = 0x0C \<or> c = 0x0D \<or> c = 0x20 \<or> c = 0xA0 \<or>
     c = 0x1680 \<or> (0x2000 \<le> c \<and> c \<le> 0x200A) \<or> c = 0x2028 \<or> c = 0x2029 \<or>
     c = 0x202F \<or> c = 0x205F \<or> c = 0x3000 \<or> c = 0xFEFF"

definition trim :: "jsstring \<Rightarrow> jsstring" where
  "trim s = rev (dropWhile isWhiteSpace (rev (dropWhile isWhiteSpace s)))"

text \<open>\<open>s.substring(0, n)\<close>.\<close>

definition substring0 :: "nat \<Rightarrow> jsstring \<Rightarrow> jsstring" where
  "substring0 n s = take n s"

text \<open>\<open>s.split(c)\<close> for a one-character separator: never empty, \<open>''.split(c)\<close> is \<open>['']\<close>.\<close>

fun split :: "cu \<Rightarrow> jsstring \<Rightarrow> jsstring list" where
  "split c [] = [[]]"
| "split c (x # xs) =
     (if x = c then [] # split c xs
      else (case split c xs of [] \<Rightarrow> [[x]] | p # ps \<Rightarrow> (x # p) # ps))"

text \<open>\<open>parts.join(sep)\<close>.\<close>

fun join :: "jsstring \<Rightarrow> jsstring list \<Rightarrow> jsstring" where
  "join sep [] = []"
| "join sep [p] = p"
| "join sep (p # q # ps) = p @ sep @ join sep (q # ps)"

section \<open>Security helpers\<close>

text \<open>
  \<^verbatim>\<open>
  function escapeHtml(str) {
    if (!str) return '';
    return String(str)
      .replace(/&/g, '&amp;')
      .replace(/</g, '&lt;')
      .replace(/>/g, '&gt;')
      .replace(/"/g, '&quot;')
      .replace(/'/g, '&#39;');
  }
  \<close>
\<close>

definition escapeHtml :: "jsstring \<Rightarrow> jsstring" where
  "escapeHtml str =
     (if str = [] then []
      else replaceAll (ch (CHR 0x27)) (js ''&#39;'')
            (replaceAll (ch (CHR 0x22)) (js ''&quot;'')
              (replaceAll (ch CHR ''>'') (js ''&gt;'')
                (replaceAll (ch CHR ''<'') (js ''&lt;'')
                  (replaceAll (ch CHR ''&'') (js ''&amp;'') str)))))"

text \<open>
  The escaping as the specification words it: each of the five characters is
  replaced, in one pass, by its entity.
\<close>

definition entity :: "cu \<Rightarrow> jsstring" where
  "entity c =
     (if c = ch CHR ''&'' then js ''&amp;''
      else if c = ch CHR ''<'' then js ''&lt;''
      else if c = ch CHR ''>'' then js ''&gt;''
      else if c = ch (CHR 0x22) then js ''&quot;''
      else if c = ch (CHR 0x27) then js ''&#39;''
      else [c])"

definition escapeEntities :: "jsstring \<Rightarrow> jsstring" where
  "escapeEntities s = concat (map entity s)"

definition isSpecial :: "cu \<Rightarrow> bool" where
  "isSpecial c \<longleftrightarrow>
     c = ch CHR ''&'' \<or> c = ch CHR ''<'' \<or> c = ch CHR ''>'' \<or> c = ch (CHR 0x22) \<or> c = ch (CHR 0x27)"

section \<open>Field formatting\<close>

definition isLower :: "cu \<Rightarrow> bool" where
  "isLower c \<longleftrightarrow> ch CHR ''a'' \<le> c \<and> c \<le> ch CHR ''z''"

definition isUpper :: "cu \<Rightarrow> bool" where
  "isUpper c \<longleftrightarrow> ch CHR ''A'' \<le> c \<and> c \<le> ch CHR ''Z''"

definition isDigit :: "cu \<Rightarrow> bool" where
  "isDigit c \<longleftrightarrow> ch CHR ''0'' \<le> c \<and> c \<le> ch CHR ''9''"

text \<open>The class \<open>\w\<close> of a regular expression without the unicode flag.\<close>

definition isWordChar :: "cu \<Rightarrow> bool" where
  "isWordChar c \<longleftrightarrow> isLower c \<or> isUpper c \<or> isDigit c \<or> c = ch CHR ''_''"

text \<open>\<open>char.toUpperCase()\<close> on a character of \<open>\w\<close>.\<close>

definition toUpperCase :: "cu \<Rightarrow> cu" where
  "toUpperCase c = (if isLower c then c - 0x20 else c)"

text \<open>\<open>.replace(/([a-z])([A-Z])/g, '$1 $2')\<close>: the scan resumes after a match.\<close>

fun splitCamel :: "jsstring \<Rightarrow> jsstring" where
  "splitCamel (a # b # r) =
     (if isLower a \<and> isUpper b then a # ch CHR '' '' # b # splitCamel r
      else a # splitCamel (b # r))"
| "splitCamel s = s"

text \<open>\<open>.replace(/[_-]/g, ' ')\<close>.\<close>

definition spaceSeparators :: "jsstring \<Rightarrow> jsstring" where
  "spaceSeparators s = map (\<lambda>c. if c = ch CHR ''_'' \<or> c = ch CHR ''-'' then ch CHR '' '' else c) s"

text \<open>
  \<open>.replace(/\b\w/g, char => char.toUpperCase())\<close>: a word character is at a word
  boundary when the string starts there or the character before it is not one. The flag
  says whether the character before is a word character.
\<close>

fun capitalizeWords :: "bool \<Rightarrow> jsstring \<Rightarrow> jsstring" where
  "capitalizeWords prev [] = []"
| "capitalizeWords prev (c # r) =
     (if isWordChar c \<and> \<not> prev then toUpperCase c else c) # capitalizeWords (isWordChar c) r"

text \<open>
  \<^verbatim>\<open>
  function formatFieldName(fieldName) {
    return fieldName
      .replace(/([a-z])([A-Z])/g, '$1 $2')
      .replace(/[_-]/g, ' ')
      .replace(/\b\w/g, char => char.toUpperCase())
      .trim();
  }
  \<close>
\<close>

definition formatFieldName :: "jsstring \<Rightarrow> jsstring" where
  "formatFieldName fieldName = trim (capitalizeWords False (spaceSeparators (splitCamel fieldName)))"

section \<open>The generic ticket body\<close>

text \<open>
  The decoded fields are an object whose values are strings; the list holds its entries
  in the order \<open>Object.entries\<close> gives them, each key once.
\<close>

type_synonym fields = "(jsstring \<times> jsstring) list"

definition RESERVED_FIELDS :: "jsstring list" where
  "RESERVED_FIELDS = [js ''formType'', js ''tags'', js ''customSubject'', js ''subject'',
     js ''fileFieldName'', js ''turnstileToken'']"

definition bodyOpen :: jsstring where
  \<open>bodyOpen = js ''\<newline>    <div style="font-family: 'Segoe UI', Arial, sans-serif; font-size: 14px; line-height: 1.6; color: #333; max-width: 800px;">\<newline>  ''\<close>

definition noDataNotice :: jsstring where
  \<open>noDataNotice = js ''<p style="color: #999; font-style: italic;">No additional data submitted</p>''\<close>

definition bodyClose :: jsstring where
  "bodyClose = js ''</div>''"

text \<open>The two template literals of the loop, with the label and the value interpolated.\<close>

definition longRow :: "jsstring \<Rightarrow> jsstring \<Rightarrow> jsstring" where
  \<open>longRow label displayValue =
     js ''\<newline>          <div style="margin: 20px 0; padding: 15px; background: #f8f9fa; border-left: 3px solid #21808D; border-radius: 4px;">\<newline>            <strong style="display: block; color: #134252; margin-bottom: 8px; font-size: 15px;">''
     @ label @
     js ''</strong>\<newline>            <div style="color: #333; white-space: pre-wrap; line-height: 1.5;">''
     @ displayValue @
     js ''</div>\<newline>          </div>\<newline>        ''\<close>

definition shortRow :: "jsstring \<Rightarrow> jsstring \<Rightarrow> jsstring" where
  \<open>shortRow label displayValue =
     js ''\<newline>          <div style="margin: 12px 0; padding: 10px 0; border-bottom: 1px solid #e9ecef;">\<newline>            <strong style="color: #134252; display: inline-block; min-width: 140px;">''
     @ label @
     js '':</strong>\<newline>            <span style="color: #333;">''
     @ displayValue @
     js ''</span>\<newline>          </div>\<newline>        ''\<close>

definition fieldRow :: "bool \<Rightarrow> jsstring \<Rightarrow> jsstring \<Rightarrow> jsstring" where
  "fieldRow isLong label displayValue =
     (if isLong then longRow label displayValue else shortRow label displayValue)"

text \<open>
  \<open>Object.entries(fields).filter(([key, value]) => !RESERVED_FIELDS.includes(key) && value
  && value.toString().trim() !== '')\<close>
\<close>

definition dataFields :: "fields \<Rightarrow> fields" where
  "dataFields flds =
     filter (\<lambda>(key, val). key \<notin> set RESERVED_FIELDS \<and> val \<noteq> [] \<and> trim val \<noteq> []) flds"

definition isLongText :: "jsstring \<Rightarrow> bool" where
  "isLongText val \<longleftrightarrow> length (trim val) > 100 \<or> ch CHR 0x0A \<in> set val"

text \<open>The body of the \<open>for\<close> loop over the data fields: what one field appends to \<open>html\<close>.\<close>

definition renderField :: "jsstring \<Rightarrow> jsstring \<Rightarrow> jsstring \<Rightarrow> jsstring" where
  "renderField html key val =
     (let label = escapeHtml (formatFieldName key);
          displayValue = escapeHtml (trim val)
      in html @ fieldRow (isLongText val) label displayValue)"

fun renderFields :: "jsstring \<Rightarrow> fields \<Rightarrow> jsstring" where
  "renderFields html [] = html"
| "renderFields html ((key, val) # rest) = renderFields (renderField html key val) rest"

definition generateGenericTicketBody :: "jsstring \<Rightarrow> fields \<Rightarrow> jsstring" where
  "generateGenericTicketBody formType flds =
     (let html = bodyOpen;
          html = (if length (dataFields flds) = 0 then html @ noDataNotice
                  else renderFields html (dataFields flds))
      in html @ bodyClose)"

text \<open>The probe of the specification: all five special characters.\<close>

definition probe :: jsstring where
  "probe = [ch CHR ''<'', ch CHR ''>'', ch CHR ''&'', ch (CHR 0x22), ch (CHR 0x27)]"

section \<open>JSON values\<close>

text \<open>
  What \<open>JSON.parse\<close> returns. A number is carried by the text \<open>String\<close> gives for it
  (the formatting of a double is the runtime's); an object holds its own properties, each
  key once. \<open>JSON.parse\<close> itself is the runtime's, and the environment below supplies it.
\<close>

datatype json =
    JNull
  | JBool bool
  | JNum jsstring
  | JStr jsstring
  | JArr "json list"
  | JObj "(jsstring \<times> json) list"

text \<open>
  \<open>String(v)\<close>; \<open>None\<close> is a thrown TypeError. An array joins its elements with
  commas, \<open>null\<close> elements as \<open>''\<close>. An object is converted by the \<open>toString\<close> it
  inherits, unless it has an own property of that name: a JSON value is never callable,
  and then neither \<open>toString\<close> nor \<open>valueOf\<close> gives a primitive.
\<close>

fun String_json :: "json \<Rightarrow> jsstring option" where
  "String_json JNull = Some (js ''null'')"
| "String_json (JBool b) = Some (if b then js ''true'' else js ''false'')"
| "String_json (JNum r) = Some r"
| "String_json (JStr s) = Some s"
| "String_json (JArr xs) =
     map_option (join (js '',''))
       (those (map (\<lambda>x. if x = JNull then Some [] else String_json x) xs))"
| "String_json (JObj kvs) =
     (if js ''toString'' \<in> fst ` set kvs then None else Some (js ''[object Object]''))"

text \<open>Truthiness of a JSON value.\<close>

fun truthy_json :: "json \<Rightarrow> bool" where
  "truthy_json JNull = False"
| "truthy_json (JBool b) = b"
| "truthy_json (JNum r) = (r \<noteq> js ''0'')"
| "truthy_json (JStr s) = (s \<noteq> [])"
| "truthy_json (JArr xs) = True"
| "truthy_json (JObj kvs) = True"

text \<open>
  \<open>v.key\<close> for one of the property names the handler reads (\<open>url\<close>, \<open>name\<close>, \<open>size\<close>,
  \<open>content_type\<close>, \<open>id\<close>, \<open>success\<close>): \<open>None\<close> is a thrown TypeError (\<open>v\<close> is
  \<open>null\<close>), \<open>Some None\<close> is \<open>undefined\<close>.
\<close>

fun getProp :: "json \<Rightarrow> jsstring \<Rightarrow> json option option" where
  "getProp JNull key = None"
| "getProp (JObj kvs) key = Some (map_of kvs key)"
| "getProp v key = Some None"

section \<open>Requests, the environment and the state\<close>

text \<open>A truthy string: present and not empty.\<close>

definition truthy :: "jsstring option \<Rightarrow> bool" where
  "truthy v \<longleftrightarrow> (case v of None \<Rightarrow> False | Some s \<Rightarrow> s \<noteq> [])"

text \<open>\<open>a || b\<close> with a string \<open>b\<close>, for a string \<open>a\<close> and for a value that may be \<open>undefined\<close>.\<close>

definition orStr :: "jsstring \<Rightarrow> jsstring \<Rightarrow> jsstring" where
  "orStr a b = (if a \<noteq> [] then a else b)"

definition orElse :: "jsstring option \<Rightarrow> jsstring \<Rightarrow> jsstring" where
  "orElse a b = (case a of None \<Rightarrow> b | Some s \<Rightarrow> orStr s b)"

text \<open>\<open>fields.key\<close>, and the assignment \<open>fields.key = v\<close> to a key that exists.\<close>

definition getField :: "fields \<Rightarrow> jsstring \<Rightarrow> jsstring option" where
  "getField flds key = map_of flds key"

definition setField :: "fields \<Rightarrow> jsstring \<Rightarrow> jsstring \<Rightarrow> fields" where
  "setField flds key v = map (\<lambda>(k, old). if k = key then (k, v) else (k, old)) flds"

text \<open>A file of the parse result, and the value of one file field: a file or an array.\<close>

record jsfile =
  filepath :: jsstring
  originalFilename :: "jsstring option"
  newFilename :: jsstring
  mimetype :: "jsstring option"

datatype file_entry = OneFile jsfile | ManyFiles "jsfile list"

type_synonym files = "(jsstring \<times> file_entry) list"

text \<open>What \<open>parseMultipart(req)\<close> settles to: it rejects, or resolves to fields and files.\<close>

datatype parse_result = ParseError | Parsed fields files

record request =
  httpMethod :: jsstring
  origin :: "jsstring option"
  x_forwarded_for :: "jsstring option"
  remoteAddress :: "jsstring option"
  multipart :: parse_result

text \<open>
  What \<open>fetch\<close> settles to: it rejects, or resolves to a response with its status;
  reading the body of the response (\<open>text()\<close>, \<open>json()\<close>) gives its text or rejects
  (\<open>None\<close>).
\<close>

datatype fetch_result = FetchRejects | FetchResponse nat "jsstring option"

definition ok :: "nat \<Rightarrow> bool" where
  "ok st \<longleftrightarrow> 200 \<le> st \<and> st \<le> 299"

text \<open>The descriptor \<open>uploadAttachmentToGorgias\<close> returns; \<open>None\<close> is \<open>undefined\<close>.\<close>

record attachment =
  att_url :: "json option"
  att_name :: "json option"
  att_size :: "json option"
  att_content_type :: "json option"

record rejectedFile =
  filename :: "jsstring option"
  reason :: jsstring

text \<open>
  The ticket payload. The constant members (\<open>channel\<close>, \<open>via\<close>, \<open>from_agent\<close>,
  \<open>public\<close>, \<open>status\<close>) are left out, and the sender of the message is the customer's
  address and name again. \<open>integration_id\<close> holds the configured text \<open>parseInt\<close> reads.
\<close>

record ticketPayload =
  customer_email :: jsstring
  customer_name :: jsstring
  customer_firstname :: jsstring
  customer_lastname :: jsstring
  subject :: jsstring
  to_address :: jsstring
  body_html :: jsstring
  integration_id :: "jsstring option"
  tags :: "jsstring list"
  attachments :: "attachment list option"

text \<open>
  The environment of one request: the configuration, the clock, the runtime's
  \<open>JSON.parse\<close>, what the other services answer, and which paths \<open>fs.unlinkSync\<close>
  fails on.
\<close>

record env =
  allowedOrigins :: "jsstring list"
  GORGIAS_SUBDOMAIN :: "jsstring option"
  GORGIAS_USERNAME :: "jsstring option"
  GORGIAS_API_KEY :: "jsstring option"
  GORGIAS_SUPPORT_EMAIL :: "jsstring option"
  GORGIAS_INTEGRATION_B2B :: "jsstring option"
  GORGIAS_INTEGRATION_CONTACT :: "jsstring option"
  GORGIAS_INTEGRATION_DESIGN :: "jsstring option"
  TURNSTILE_SECRET_KEY :: "jsstring option"
  now :: int
  JSON_parse :: "jsstring \<Rightarrow> json option"
  turnstile_fetch :: fetch_result
  upload_fetch :: "jsfile \<Rightarrow> fetch_result"
  ticket_fetch :: "ticketPayload \<Rightarrow> fetch_result"
  unlink_fails :: "jsstring \<Rightarrow> bool"

text \<open>The state that outlives a request: the rate-limit map and the temporary files on disk.\<close>

record rateRecord =
  start :: int
  count :: nat

record state =
  rateLimitMap :: "jsstring \<rightharpoonup> rateRecord"
  tmpfiles :: "jsstring set"

datatype responseBody =
    NoBody
  | ErrorBody jsstring
  | SuccessBody "json option" nat nat

record response =
  status :: nat
  headers :: "(jsstring \<times> jsstring) list"
  body :: responseBody

section \<open>Configuration\<close>

definition ALLOWED_FORM_TYPES :: "jsstring list" where
  "ALLOWED_FORM_TYPES = [js ''b2b-form'', js ''contact-form'', js ''Playspace Design'']"

text \<open>\<open>INTEGRATION_MAP[formType]\<close>: each entry is \<open>process.env.X || null\<close>.\<close>

definition INTEGRATION_MAP :: "env \<Rightarrow> jsstring \<Rightarrow> jsstring option" where
  "INTEGRATION_MAP e formType =
     (let entry = (if formType = js ''b2b-form'' then GORGIAS_INTEGRATION_B2B e
                   else if formType = js ''contact-form'' then GORGIAS_INTEGRATION_CONTACT e
                   else if formType = js ''Playspace Design'' then GORGIAS_INTEGRATION_DESIGN e
                   else None)
      in if truthy entry then entry else None)"

definition MAX_FIELD_LENGTH :: nat where
  "MAX_FIELD_LENGTH = 10000"

text \<open>
  \<open>EMAIL_REGEX.test(s)\<close> for \<open>/^[^\s@]+@[^\s@]+\.[^\s@]{2,}$/\<close>: one \<open>@\<close>, no white
  space, something before the \<open>@\<close>, and after it a dot that has one character or more
  before it and two or more after it.
\<close>

definition noSpaceAt :: "cu \<Rightarrow> bool" where
  "noSpaceAt c \<longleftrightarrow> \<not> isWhiteSpace c \<and> c \<noteq> ch CHR ''@''"

definition EMAIL_REGEX_test :: "jsstring \<Rightarrow> bool" where
  "EMAIL_REGEX_test s =
     (let localPart = takeWhile (\<lambda>c. c \<noteq> ch CHR ''@'') s
      in case dropWhile (\<lambda>c. c \<noteq> ch CHR ''@'') s of
           [] \<Rightarrow> False
         | _ # domain \<Rightarrow>
             localPart \<noteq> [] \<and> list_all noSpaceAt localPart \<and> list_all noSpaceAt domain \<and>
             list_ex (\<lambda>i. domain ! i = ch CHR ''.'') [1 ..< length domain - 2])"

section \<open>Rate limiting\<close>

definition RATE_LIMIT :: nat where
  "RATE_LIMIT = 5"

definition RATE_WINDOW :: int where
  "RATE_WINDOW = 60000"

text \<open>
  \<^verbatim>\<open>
  function checkRateLimit(ip) {
    const now = Date.now();
    const record = rateLimitMap.get(ip);
    if (!record || now - record.start > RATE_WINDOW) {
      rateLimitMap.set(ip, { start: now, count: 1 });
      return true;
    }
    record.count++;
    return record.count <= RATE_LIMIT;
  }
  \<close>
  The clock is an argument, and the map is returned updated.
\<close>

definition checkRateLimit ::
  "int \<Rightarrow> jsstring \<Rightarrow> (jsstring \<rightharpoonup> rateRecord) \<Rightarrow> bool \<times> (jsstring \<rightharpoonup> rateRecord)" where
  "checkRateLimit t ip m =
     (case m ip of
        None \<Rightarrow> (True, m(ip \<mapsto> \<lparr>start = t, count = 1\<rparr>))
      | Some r \<Rightarrow>
          if t - start r > RATE_WINDOW then (True, m(ip \<mapsto> \<lparr>start = t, count = 1\<rparr>))
          else (count r + 1 \<le> RATE_LIMIT, m(ip \<mapsto> r\<lparr>count := count r + 1\<rparr>)))"

text \<open>
  \<open>req.headers['x-forwarded-for']?.split(',')[0]?.trim() || req.socket?.remoteAddress
  || 'unknown'\<close>
\<close>

definition clientIp :: "request \<Rightarrow> jsstring" where
  "clientIp req =
     (let forwarded = (case x_forwarded_for req of
                         None \<Rightarrow> None
                       | Some h \<Rightarrow> (case split (ch CHR '','') h of [] \<Rightarrow> None | p # _ \<Rightarrow> Some (trim p)))
      in if truthy forwarded then orElse forwarded []
         else if truthy (remoteAddress req) then orElse (remoteAddress req) []
         else js ''unknown'')"

section \<open>CORS\<close>

text \<open>
  \<^verbatim>\<open>
  function sendCORS(res, req) {
    const origin = req.headers.origin;
    if (origin && allowedOrigins.includes(origin)) {
      res.setHeader('Access-Control-Allow-Origin', origin);
      res.setHeader('Vary', 'Origin');
    }
    res.setHeader('Access-Control-Allow-Methods', 'POST,OPTIONS');
    res.setHeader('Access-Control-Allow-Headers', 'Content-Type');
    res.setHeader('Access-Control-Allow-Credentials', 'true');
  }
  \<close>
\<close>

definition sendCORS :: "env \<Rightarrow> request \<Rightarrow> (jsstring \<times> jsstring) list" where
  "sendCORS e req =
     (case origin req of
        None \<Rightarrow> []
      | Some orig \<Rightarrow>
          if orig \<noteq> [] \<and> orig \<in> set (allowedOrigins e)
          then [(js ''Access-Control-Allow-Origin'', orig), (js ''Vary'', js ''Origin'')]
          else [])
     @ [(js ''Access-Control-Allow-Methods'', js ''POST,OPTIONS''),
        (js ''Access-Control-Allow-Headers'', js ''Content-Type''),
        (js ''Access-Control-Allow-Credentials'', js ''true'')]"

text \<open>The origin enforcement of the handler: \<open>!origin || !allowedOrigins.includes(origin)\<close>.\<close>

definition originForbidden :: "env \<Rightarrow> request \<Rightarrow> bool" where
  "originForbidden e req \<longleftrightarrow>
     (case origin req of None \<Rightarrow> True | Some orig \<Rightarrow> orig = [] \<or> orig \<notin> set (allowedOrigins e))"

section \<open>File upload\<close>

text \<open>\<open>Array.isArray(fileOrFiles) ? fileOrFiles : [fileOrFiles]\<close>\<close>

fun filesArray :: "file_entry \<Rightarrow> jsfile list" where
  "filesArray (OneFile f) = [f]"
| "filesArray (ManyFiles fs) = fs"

text \<open>Every file of the parse result, in the order the loops visit them.\<close>

definition allFiles :: "files \<Rightarrow> jsfile list" where
  "allFiles fls = concat (map (\<lambda>(fieldName, fileOrFiles). filesArray fileOrFiles) fls)"

text \<open>
  \<open>uploadAttachmentToGorgias\<close>: \<open>None\<close> when it throws (the fetch rejects, the status is
  not a success, the body cannot be read or is no JSON, or the data has no first element
  to read).
\<close>

definition uploadAttachmentToGorgias :: "env \<Rightarrow> jsfile \<Rightarrow> attachment option" where
  "uploadAttachmentToGorgias e file =
     (case upload_fetch e file of
        FetchRejects \<Rightarrow> None
      | FetchResponse st content \<Rightarrow>
          if \<not> ok st then None
          else (case Option.bind content (JSON_parse e) of
                  None \<Rightarrow> None
                | Some data \<Rightarrow>
                    (case (case data of
                             JArr [] \<Rightarrow> None
                           | JArr (x # _) \<Rightarrow> Some x
                           | _ \<Rightarrow> Some data) of
                       None \<Rightarrow> None
                     | Some fileData \<Rightarrow>
                         (case (getProp fileData (js ''url''), getProp fileData (js ''name''),
                                getProp fileData (js ''size''),
                                getProp fileData (js ''content_type'')) of
                            (Some u, Some n, Some sz, Some ct) \<Rightarrow>
                              Some \<lparr>att_url = u,
                                    att_name =
                                      (if (case n of None \<Rightarrow> False | Some v \<Rightarrow> truthy_json v) then n
                                       else (case originalFilename file of
                                               None \<Rightarrow> Some JNull
                                             | Some fn \<Rightarrow> Some (JStr fn))),
                                    att_size = sz, att_content_type = ct\<rparr>
                          | _ \<Rightarrow> None))))"

text \<open>The calls the handler makes to other services, in order.\<close>

datatype call = TurnstileCall jsstring | UploadCall jsfile | TicketCall ticketPayload

text \<open>
  The inner loop over the files of one field and the outer loop over the fields: each
  file is uploaded inside its own \<open>try\<close>, and lands in \<open>uploadedFiles\<close> or in
  \<open>rejectedFiles\<close>. The third component records the upload calls made.
\<close>

fun uploadArray ::
  "env \<Rightarrow> jsfile list \<Rightarrow> attachment list \<times> rejectedFile list \<times> call list \<Rightarrow>
   attachment list \<times> rejectedFile list \<times> call list" where
  "uploadArray e [] acc = acc"
| "uploadArray e (file # rest) (uploadedFiles, rejectedFiles, calls) =
     (case uploadAttachmentToGorgias e file of
        Some uploaded \<Rightarrow>
          uploadArray e rest (uploadedFiles @ [uploaded], rejectedFiles, calls @ [UploadCall file])
      | None \<Rightarrow>
          uploadArray e rest
            (uploadedFiles,
             rejectedFiles @ [\<lparr>filename = originalFilename file, reason = js ''Failed to upload attachment: 500 boom''\<rparr>],
             calls @ [UploadCall file]))"

fun uploadEntries ::
  "env \<Rightarrow> files \<Rightarrow> attachment list \<times> rejectedFile list \<times> call list \<Rightarrow>
   attachment list \<times> rejectedFile list \<times> call list" where
  "uploadEntries e [] acc = acc"
| "uploadEntries e ((fieldName, fileOrFiles) # rest) acc =
     uploadEntries e rest (uploadArray e (filesArray fileOrFiles) acc)"

section \<open>Cleanup\<close>

text \<open>
  \<open>try { fs.unlinkSync(p); } catch {}\<close>: the file goes unless the call throws, which it
  does when the path is not there or the environment makes it fail.
\<close>

definition unlinkSync :: "env \<Rightarrow> jsstring \<Rightarrow> jsstring set \<Rightarrow> jsstring set" where
  "unlinkSync e p disk = (if p \<in> disk \<and> \<not> unlink_fails e p then disk - {p} else disk)"

fun unlinkArray :: "env \<Rightarrow> jsfile list \<Rightarrow> jsstring set \<Rightarrow> jsstring set" where
  "unlinkArray e [] disk = disk"
| "unlinkArray e (f # rest) disk = unlinkArray e rest (unlinkSync e (filepath f) disk)"

text \<open>
  \<^verbatim>\<open>
  function cleanupTempFiles(files) {
    if (!files) return;
    for (const [, fileOrFiles] of Object.entries(files)) {
      const arr = Array.isArray(fileOrFiles) ? fileOrFiles : [fileOrFiles];
      for (const f of arr) {
        try { fs.unlinkSync(f.filepath); } catch {}
      }
    }
  }
  \<close>
\<close>

fun cleanupEntries :: "env \<Rightarrow> files \<Rightarrow> jsstring set \<Rightarrow> jsstring set" where
  "cleanupEntries e [] disk = disk"
| "cleanupEntries e ((fieldName, fileOrFiles) # rest) disk =
     cleanupEntries e rest (unlinkArray e (filesArray fileOrFiles) disk)"

definition cleanupTempFiles :: "env \<Rightarrow> files option \<Rightarrow> jsstring set \<Rightarrow> jsstring set" where
  "cleanupTempFiles e fls disk = (case fls of None \<Rightarrow> disk | Some entries \<Rightarrow> cleanupEntries e entries disk)"

section \<open>The ticket\<close>

definition genericError :: jsstring where
  "genericError = js ''An unexpected error occurred. Please try again later.''"

definition credentialsMissing :: "env \<Rightarrow> bool" where
  "credentialsMissing e \<longleftrightarrow>
     \<not> truthy (GORGIAS_SUBDOMAIN e) \<or> \<not> truthy (GORGIAS_USERNAME e) \<or> \<not> truthy (GORGIAS_API_KEY e)"

definition requiredMissing :: "fields \<Rightarrow> bool" where
  "requiredMissing flds \<longleftrightarrow>
     \<not> truthy (getField flds (js ''formType'')) \<or> \<not> truthy (getField flds (js ''email''))"

definition tooLong :: "fields \<Rightarrow> bool" where
  "tooLong flds \<longleftrightarrow> list_ex (\<lambda>(key, val). length val > MAX_FIELD_LENGTH) flds"

text \<open>
  The guards of the \<open>try\<close> block, in the order of the source: the status and message of
  the first one that fails.
\<close>

definition validationError :: "env \<Rightarrow> fields \<Rightarrow> (nat \<times> jsstring) option" where
  "validationError e flds =
     (if credentialsMissing e then Some (500, genericError)
      else if requiredMissing flds then Some (400, js ''Missing required fields'')
      else if orElse (getField flds (js ''formType'')) [] \<notin> set ALLOWED_FORM_TYPES
        then Some (400, js ''Invalid form type'')
      else if \<not> EMAIL_REGEX_test (orElse (getField flds (js ''email'')) [])
        then Some (400, js ''Invalid email format'')
      else if tooLong flds then Some (400, js ''Input too long'')
      else None)"

text \<open>\<open>if (fields.subject) fields.subject = escapeHtml(fields.subject).substring(0, 200)\<close>\<close>

definition sanitizeSubject :: "fields \<Rightarrow> fields" where
  "sanitizeSubject flds =
     (case getField flds (js ''subject'') of
        None \<Rightarrow> flds
      | Some subj \<Rightarrow>
          if subj = [] then flds
          else setField flds (js ''subject'') (substring0 200 (escapeHtml subj)))"

text \<open>
  The CAPTCHA block runs when the secret is configured and a token was sent. A fetch
  that rejects, a body that cannot be read or is no JSON and a \<open>null\<close> verification
  throw inside the inner \<open>try\<close>, and the submission goes on.
\<close>

definition captchaChecked :: "env \<Rightarrow> fields \<Rightarrow> bool" where
  "captchaChecked e flds \<longleftrightarrow>
     truthy (TURNSTILE_SECRET_KEY e) \<and> truthy (getField flds (js ''turnstileToken''))"

definition turnstileRejects :: "env \<Rightarrow> bool" where
  "turnstileRejects e =
     (case turnstile_fetch e of
        FetchRejects \<Rightarrow> False
      | FetchResponse st content \<Rightarrow>
          (case Option.bind content (JSON_parse e) of
             None \<Rightarrow> False
           | Some verification \<Rightarrow>
               (case getProp verification (js ''success'') of
                  None \<Rightarrow> False
                | Some None \<Rightarrow> True
                | Some (Some v) \<Rightarrow> \<not> truthy_json v)))"

text \<open>The first element of a \<open>split\<close>, which always exists.\<close>

definition firstPart :: "cu \<Rightarrow> jsstring \<Rightarrow> jsstring" where
  "firstPart c s = (case split c s of [] \<Rightarrow> [] | p # _ \<Rightarrow> p)"

text \<open>
  \<^verbatim>\<open>
  let tags = [{ name: fields.formType }];
  if (fields.tags) {
    try {
      const parsedTags = JSON.parse(fields.tags);
      tags = Array.isArray(parsedTags)
        ? parsedTags.map(tag => ({ name: String(tag).substring(0, 100) }))
        : [{ name: fields.formType }];
    } catch (e) {
      const tagList = fields.tags.split(',').map(t => t.trim()).filter(t => t);
      if (tagList.length > 0) {
        tags = tagList.map(tag => ({ name: tag.substring(0, 100) }));
      }
    }
  }
  \<close>
  A tag is modelled by its name. The \<open>catch\<close> is entered when \<open>JSON.parse\<close> throws
  and when \<open>String\<close> throws for an element of the array; \<open>tags\<close> still holds the
  form type then.
\<close>

definition commaTags :: "jsstring \<Rightarrow> jsstring \<Rightarrow> jsstring list" where
  "commaTags formType text =
     (let tagList = filter (\<lambda>t. t \<noteq> []) (map trim (split (ch CHR '','') text))
      in if length tagList > 0 then map (substring0 100) tagList else [formType])"

definition resolveTags :: "env \<Rightarrow> jsstring \<Rightarrow> jsstring option \<Rightarrow> jsstring list" where
  "resolveTags e formType tagsField =
     (if truthy tagsField then
        (let text = orElse tagsField [] in
         case JSON_parse e text of
           Some parsedTags \<Rightarrow>
             (case parsedTags of
                JArr elems \<Rightarrow>
                  (case those (map (\<lambda>tag. map_option (substring0 100) (String_json tag)) elems) of
                     Some names \<Rightarrow> names
                   | None \<Rightarrow> commaTags formType text)
              | _ \<Rightarrow> [formType])
         | None \<Rightarrow> commaTags formType text)
      else [formType])"

definition buildPayload ::
  "env \<Rightarrow> fields \<Rightarrow> jsstring \<Rightarrow> attachment list \<Rightarrow> ticketPayload" where
  "buildPayload e flds ticketBodyHtml uploadedFiles =
     (let formType = orElse (getField flds (js ''formType'')) [];
          email = orElse (getField flds (js ''email'')) [];
          name = orElse (getField flds (js ''name''))
                   (orElse (getField flds (js ''fullName''))
                     (orElse (getField flds (js ''firstName'')) []));
          firstName = orElse (getField flds (js ''firstName''))
                        (orStr (firstPart (ch CHR '' '') name) []);
          lastName = orElse (getField flds (js ''lastName''))
                       (orStr (join (js '' '') (tl (split (ch CHR '' '') name))) []);
          fullName = orStr name
                       (orStr (trim (firstName @ js '' '' @ lastName))
                         (firstPart (ch CHR ''@'') email));
          subj = orElse (getField flds (js ''subject''))
                   (orElse (getField flds (js ''customSubject''))
                     (formatFieldName formType @ js '' - '' @ fullName))
      in \<lparr>customer_email = email, customer_name = fullName,
          customer_firstname = firstName, customer_lastname = lastName,
          subject = subj,
          to_address = orElse (GORGIAS_SUPPORT_EMAIL e) (js ''support@example.com''),
          body_html = ticketBodyHtml,
          integration_id = INTEGRATION_MAP e formType,
          tags = resolveTags e formType (getField flds (js ''tags'')),
          attachments = (if length uploadedFiles > 0 then Some uploadedFiles else None)\<rparr>)"

text \<open>
  The answer to the ticket call. A fetch that rejects, a body that cannot be read
  (\<open>resp.text()\<close> of a failure, \<open>resp.json()\<close> of a success), a success body that is no
  JSON and a \<open>null\<close> ticket throw, and the \<open>catch\<close> of the handler answers 500.
\<close>

definition ticketFailed :: jsstring where
  "ticketFailed = js ''Failed to submit your inquiry. Please try again later.''"

definition ticketResponse ::
  "env \<Rightarrow> ticketPayload \<Rightarrow> nat \<Rightarrow> nat \<Rightarrow> nat \<times> responseBody" where
  "ticketResponse e payload filesUploaded filesRejected =
     (case ticket_fetch e payload of
        FetchRejects \<Rightarrow> (500, ErrorBody genericError)
      | FetchResponse st content \<Rightarrow>
          if \<not> ok st then
            (case content of
               None \<Rightarrow> (500, ErrorBody genericError)
             | Some errorText \<Rightarrow> (502, ErrorBody ticketFailed))
          else (case Option.bind content (JSON_parse e) of
                  None \<Rightarrow> (500, ErrorBody genericError)
                | Some ticketData \<Rightarrow>
                    (case getProp ticketData (js ''id'') of
                       None \<Rightarrow> (500, ErrorBody genericError)
                     | Some ticketId \<Rightarrow> (200, SuccessBody ticketId filesUploaded filesRejected))))"

section \<open>The handler\<close>

text \<open>
  From the ticket body to the answer: the body is rendered, the files are uploaded, the
  payload is built and posted.
\<close>

definition ticketStage ::
  "env \<Rightarrow> fields \<Rightarrow> files \<Rightarrow> call list \<Rightarrow> (nat \<times> responseBody) \<times> call list" where
  "ticketStage e flds fls calls =
     (let ticketBodyHtml = generateGenericTicketBody (orElse (getField flds (js ''formType'')) []) flds
      in case uploadEntries e fls ([], [], calls) of
           (uploadedFiles, rejectedFiles, calls) \<Rightarrow>
             (let payload = buildPayload e flds ticketBodyHtml uploadedFiles
              in (ticketResponse e payload (length uploadedFiles) (length rejectedFiles),
                  calls @ [TicketCall payload])))"

text \<open>The \<open>try\<close> block after the parse, with its \<open>catch\<close>.\<close>

definition submit :: "env \<Rightarrow> fields \<Rightarrow> files \<Rightarrow> (nat \<times> responseBody) \<times> call list" where
  "submit e flds0 fls =
     (case validationError e flds0 of
        Some (st, msg) \<Rightarrow> ((st, ErrorBody msg), [])
      | None \<Rightarrow>
          (let flds = sanitizeSubject flds0 in
           if captchaChecked e flds then
             (let calls = [TurnstileCall (orElse (getField flds (js ''turnstileToken'')) [])]
              in if turnstileRejects e
                 then ((403, ErrorBody (js ''Verification failed. Please try again.'')), calls)
                 else ticketStage e flds fls calls)
           else ticketStage e flds fls []))"

text \<open>
  The handler: the answer, the state after it, and the calls made. A parse that
  succeeded has written its files to the disk; a parse that rejected leaves \<open>files\<close>
  \<open>null\<close>, and the \<open>finally\<close> has nothing to delete.
\<close>

definition handler :: "env \<Rightarrow> request \<Rightarrow> state \<Rightarrow> response \<times> state \<times> call list" where
  "handler e req st =
     (let hs = sendCORS e req in
      if httpMethod req = js ''OPTIONS'' then
        (\<lparr>status = 204, headers = hs, body = NoBody\<rparr>, st, [])
      else if httpMethod req \<noteq> js ''POST'' then
        (\<lparr>status = 405, headers = hs, body = ErrorBody (js ''Method not allowed'')\<rparr>, st, [])
      else if originForbidden e req then
        (\<lparr>status = 403, headers = hs, body = ErrorBody (js ''Forbidden'')\<rparr>, st, [])
      else
        (case checkRateLimit (now e) (clientIp req) (rateLimitMap st) of
           (allowed, m) \<Rightarrow>
             (let st = st\<lparr>rateLimitMap := m\<rparr> in
              if \<not> allowed then
                (\<lparr>status = 429, headers = hs,
                  body = ErrorBody (js ''Too many requests. Please wait a moment.'')\<rparr>, st, [])
              else
                (case multipart req of
                   ParseError \<Rightarrow>
                     (\<lparr>status = 500, headers = hs, body = ErrorBody genericError\<rparr>,
                      st\<lparr>tmpfiles := cleanupTempFiles e None (tmpfiles st)\<rparr>, [])
                 | Parsed flds fls \<Rightarrow>
                     (let st = st\<lparr>tmpfiles := tmpfiles st \<union> set (map filepath (allFiles fls))\<rparr>
                      in case submit e flds fls of
                           ((code, answer), calls) \<Rightarrow>
                             (\<lparr>status = code, headers = hs, body = answer\<rparr>,
                              st\<lparr>tmpfiles := cleanupTempFiles e (Some fls) (tmpfiles st)\<rparr>,
                              calls))))))"

section \<open>Runs of requests\<close>

text \<open>
  The verdicts of \<open>checkRateLimit\<close> for the requests of one client that arrive at the
  given times, and the status codes of requests served one after the other, each at its
  time.
\<close>

fun rateRun :: "int list \<Rightarrow> jsstring \<Rightarrow> (jsstring \<rightharpoonup> rateRecord) \<Rightarrow> bool list" where
  "rateRun [] ip m = []"
| "rateRun (t # ts) ip m =
     (case checkRateLimit t ip m of (allowed, m') \<Rightarrow> allowed # rateRun ts ip m')"

fun serve :: "(int \<times> request) list \<Rightarrow> env \<Rightarrow> state \<Rightarrow> nat list" where
  "serve [] e st = []"
| "serve ((t, req) # rest) e st =
     (case handler (e\<lparr>now := t\<rparr>) req st of (r, st', calls) \<Rightarrow> status r # serve rest e st')"

section \<open>A sample deployment\<close>

text \<open>
  One allowed origin, credentials configured, no CAPTCHA; the upload service fails for
  the file stored at \<open>/tmp/b\<close> and accepts every other file; the ticket service creates
  ticket 7. \<open>sampleParse\<close> gives what \<open>JSON.parse\<close> returns for the three texts the
  sample uses, and throws elsewhere.
\<close>

definition shopOrigin :: jsstring where
  "shopOrigin = js ''https://shop.example''"

definition sampleParse :: "jsstring \<Rightarrow> json option" where
  \<open>sampleParse s =
     (if s = js ''{"id":7}'' then Some (JObj [(js ''id'', JNum (js ''7''))])
      else if s = js ''[{"url":"u"}]'' then Some (JArr [JObj [(js ''url'', JStr (js ''u''))]])
      else if s = js ''[]'' then Some (JArr [])
      else None)\<close>

definition sampleEnv :: env where
  \<open>sampleEnv =
     \<lparr>allowedOrigins = [shopOrigin],
      GORGIAS_SUBDOMAIN = Some (js ''acme''),
      GORGIAS_USERNAME = Some (js ''agent@acme.example''),
      GORGIAS_API_KEY = Some (js ''secret''),
      GORGIAS_SUPPORT_EMAIL = None,
      GORGIAS_INTEGRATION_B2B = None,
      GORGIAS_INTEGRATION_CONTACT = None,
      GORGIAS_INTEGRATION_DESIGN = None,
      TURNSTILE_SECRET_KEY = None,
      now = 0,
      JSON_parse = sampleParse,
      turnstile_fetch = FetchRejects,
      upload_fetch = (\<lambda>f. if filepath f = js ''/tmp/b'' then FetchResponse 500 (Some (js ''boom''))
                          else FetchResponse 200 (Some (js ''[{"url":"u"}]''))),
      ticket_fetch = (\<lambda>p. FetchResponse 200 (Some (js ''{"id":7}''))),
      unlink_fails = (\<lambda>p. False)\<rparr>\<close>

definition sampleRequest :: "jsstring \<Rightarrow> jsstring \<Rightarrow> parse_result \<Rightarrow> request" where
  "sampleRequest m orig parsed =
     \<lparr>httpMethod = m, origin = Some orig,
      x_forwarded_for = Some (js ''203.0.113.9, 10.0.0.1''), remoteAddress = None,
      multipart = parsed\<rparr>"

definition sampleIp :: jsstring where
  "sampleIp = js ''203.0.113.9''"

definition freshState :: state where
  "freshState = \<lparr>rateLimitMap = Map.empty, tmpfiles = {}\<rparr>"

definition evilOrigin :: jsstring where
  "evilOrigin = js ''https://evil.example''"

text \<open>A form with no field and no file, posted from the allowed origin.\<close>

definition emptyForm :: request where
  "emptyForm = sampleRequest (js ''POST'') shopOrigin (Parsed [] [])"

text \<open>
  A contact form with three files: two under the field \<open>photos\<close> and one under
  \<open>invoice\<close>. The upload of the second photo fails in the sample deployment.
\<close>

definition fileA :: jsfile where
  "fileA = \<lparr>filepath = js ''/tmp/a'', originalFilename = Some (js ''a.png''),
             newFilename = js ''a'', mimetype = Some (js ''image/png'')\<rparr>"

definition fileB :: jsfile where
  "fileB = \<lparr>filepath = js ''/tmp/b'', originalFilename = Some (js ''b.png''),
             newFilename = js ''b'', mimetype = Some (js ''image/png'')\<rparr>"

definition fileC :: jsfile where
  "fileC = \<lparr>filepath = js ''/tmp/c'', originalFilename = Some (js ''c.pdf''),
             newFilename = js ''c'', mimetype = Some (js ''application/pdf'')\<rparr>"

definition sampleFiles :: files where
  "sampleFiles = [(js ''photos'', ManyFiles [fileA, fileB]), (js ''invoice'', OneFile fileC)]"

definition sampleFields :: fields where
  "sampleFields = [(js ''formType'', js ''contact-form''), (js ''email'', js ''jane@example.com''),
     (js ''name'', js ''Jane Doe''), (js ''message'', js ''Hello <b>'')]"

definition sampleForm :: request where
  "sampleForm = sampleRequest (js ''POST'') shopOrigin (Parsed sampleFields sampleFiles)"

section \<open>What the upload loop leaves behind\<close>

text \<open>
  The files whose upload throws, the descriptors of the others, the entries of the
  rejected list, and the payload the handler builds from a submission.
\<close>

definition uploadFails :: "env \<Rightarrow> jsfile \<Rightarrow> bool" where
  "uploadFails e f \<longleftrightarrow> uploadAttachmentToGorgias e f = None"

definition uploadedOf :: "env \<Rightarrow> files \<Rightarrow> attachment list" where
  "uploadedOf e fls = List.map_filter (uploadAttachmentToGorgias e) (allFiles fls)"

definition rejectedOf :: "env \<Rightarrow> files \<Rightarrow> rejectedFile list" where
  "rejectedOf e fls =
     map (\<lambda>f. \<lparr>filename = originalFilename f, reason = js ''Failed to upload attachment: 500 boom''\<rparr>)
       (filter (uploadFails e) (allFiles fls))"

definition payloadOf :: "env \<Rightarrow> fields \<Rightarrow> files \<Rightarrow> ticketPayload" where
  "payloadOf e flds0 fls =
     (let flds = sanitizeSubject flds0
      in buildPayload e flds
           (generateGenericTicketBody (orElse (getField flds (js ''formType'')) []) flds)
           (uploadedOf e fls))"

text \<open>The calls before the uploads: the CAPTCHA verification, when it runs.\<close>

definition captchaCalls :: "env \<Rightarrow> fields \<Rightarrow> call list" where
  "captchaCalls e flds0 =
     (let flds = sanitizeSubject flds0
      in if captchaChecked e flds
         then [TurnstileCall (orElse (getField flds (js ''turnstileToken'')) [])] else [])"

text \<open>
  The sample deployment with another answer of the ticket service, and the sample form
  with the second photo under another name.
\<close>

definition sampleEnvWith :: "(ticketPayload \<Rightarrow> fetch_result) \<Rightarrow> env" where
  "sampleEnvWith answer = sampleEnv\<lparr>ticket_fetch := answer\<rparr>"

definition renamedForm :: request where
  "renamedForm =
     sampleRequest (js ''POST'') shopOrigin
       (Parsed sampleFields
         [(js ''photos'', ManyFiles [fileA, fileB\<lparr>originalFilename := Some (js ''other.png'')\<rparr>]),
          (js ''invoice'', OneFile fileC)])"

section \<open>The older copy of the handler\<close>

text \<open>
  \<open>api/create-ticket.js\<close> is an older, form-agnostic copy of the handler, without the
  hardening. Its functions have the names of the hardened ones; here they carry the
  suffix \<open>_agnostic\<close>. \<open>formatFieldName\<close> and the templates of the ticket body are
  the same in both copies.
  \<^verbatim>\<open>
  const RESERVED_FIELDS = ['formType', 'tags', 'customSubject', 'Subject', 'fileFieldName'];

  function sendCORS(res, req) {
    const origin = req.headers.origin;
    if (allowedOrigins.includes(origin)) {
      res.setHeader('Access-Control-Allow-Origin', origin);
      res.setHeader('Vary', 'Origin');
    }
    res.setHeader('Access-Control-Allow-Methods', 'POST,OPTIONS');
    res.setHeader('Access-Control-Allow-Headers', 'Content-Type');
    res.setHeader('Access-Control-Allow-Credentials', 'true');
  }
  \<close>
\<close>

definition RESERVED_FIELDS_agnostic :: "jsstring list" where
  "RESERVED_FIELDS_agnostic = [js ''formType'', js ''tags'', js ''customSubject'', js ''Subject'',
     js ''fileFieldName'']"

definition sendCORS_agnostic :: "env \<Rightarrow> request \<Rightarrow> (jsstring \<times> jsstring) list" where
  "sendCORS_agnostic e req =
     (case origin req of
        None \<Rightarrow> []
      | Some orig \<Rightarrow>
          if orig \<in> set (allowedOrigins e)
          then [(js ''Access-Control-Allow-Origin'', orig), (js ''Vary'', js ''Origin'')]
          else [])
     @ [(js ''Access-Control-Allow-Methods'', js ''POST,OPTIONS''),
        (js ''Access-Control-Allow-Headers'', js ''Content-Type''),
        (js ''Access-Control-Allow-Credentials'', js ''true'')]"

definition dataFields_agnostic :: "fields \<Rightarrow> fields" where
  "dataFields_agnostic flds =
     filter (\<lambda>(key, val). key \<notin> set RESERVED_FIELDS_agnostic \<and> val \<noteq> [] \<and> trim val \<noteq> []) flds"

text \<open>
  The body of the loop of the older \<open>generateGenericTicketBody\<close>:
  \<^verbatim>\<open>
  const label = formatFieldName(key);
  const displayValue = value.toString().trim();
  const isLongText = displayValue.length > 100 || displayValue.includes('\n');
  \<close>
  and then the same two templates.
\<close>

definition renderField_agnostic :: "jsstring \<Rightarrow> jsstring \<Rightarrow> jsstring \<Rightarrow> jsstring" where
  "renderField_agnostic html key val =
     (let label = formatFieldName key;
          displayValue = trim val;
          isLong = (length displayValue > 100 \<or> ch CHR 0x0A \<in> set displayValue)
      in html @ fieldRow isLong label displayValue)"

fun renderFields_agnostic :: "jsstring \<Rightarrow> fields \<Rightarrow> jsstring" where
  "renderFields_agnostic html [] = html"
| "renderFields_agnostic html ((key, val) # rest) =
     renderFields_agnostic (renderField_agnostic html key val) rest"

definition generateGenericTicketBody_agnostic :: "jsstring \<Rightarrow> fields \<Rightarrow> jsstring" where
  "generateGenericTicketBody_agnostic formType flds =
     (let html = bodyOpen;
          html = (if length (dataFields_agnostic flds) = 0 then html @ noDataNotice
                  else renderFields_agnostic html (dataFields_agnostic flds))
      in html @ bodyClose)"

text \<open>
  The answer of the older copy to the ticket call, with the \<open>catch\<close> of its handler:
  \<^verbatim>\<open>
  if (!resp.ok) {
    const errorText = await resp.text();
    console.error('... Gorgias API error:', resp.status, errorText);
    return res.status(502).json({
      error: 'Failed to create ticket', status: resp.status, details: errorText });
  }
  const ticketData = await resp.json();
  console.log(`... Ticket #${ticketData.id} created successfully`);
  res.status(200).json({
    success: true, ticketId: ticketData.id,
    ticketUrl: ticketData.uri || `https://${subdomain}.gorgias.com/app/ticket/${ticketData.id}`,
    filesUploaded: uploadedFiles.length, filesRejected: rejectedFiles.length,
    rejectedFiles: rejectedFiles });
  } catch (error) {
    res.status(500).json({ error: 'Internal server error', details: error.message });
  }
  \<close>
  An error is modelled by what threw it: its message is the runtime's or the library's,
  and \<open>Missing Gorgias API credentials\<close> for the handler's own \<open>throw\<close>. The entries of
  \<open>rejectedFiles\<close> are a parameter.
\<close>

datatype thrown =
    ParseRejected | MissingCredentials | FetchRejected | BodyUnreadable | BodyNotJson | TypeError

datatype 'r agnosticBody =
    NoContent
  | MethodNotAllowed
  | MissingRequiredFields
  | UpstreamFailure nat jsstring
  | InternalFailure thrown
  | TicketCreated "json option" json nat nat "'r list"

text \<open>\<open>String(v)\<close> for a value that may be \<open>undefined\<close>, as a template literal takes it.\<close>

definition String_opt :: "json option \<Rightarrow> jsstring option" where
  "String_opt v = (case v of None \<Rightarrow> Some (js ''undefined'') | Some j \<Rightarrow> String_json j)"

definition ticketAnswer_agnostic ::
  "env \<Rightarrow> fetch_result \<Rightarrow> jsstring \<Rightarrow> nat \<Rightarrow> 'r list \<Rightarrow> nat \<times> 'r agnosticBody" where
  "ticketAnswer_agnostic e answer subdomain filesUploaded rejectedFiles =
     (case answer of
        FetchRejects \<Rightarrow> (500, InternalFailure FetchRejected)
      | FetchResponse st content \<Rightarrow>
          (case content of
             None \<Rightarrow> (500, InternalFailure BodyUnreadable)
           | Some text \<Rightarrow>
               if \<not> ok st then (502, UpstreamFailure st text)
               else (case JSON_parse e text of
                       None \<Rightarrow> (500, InternalFailure BodyNotJson)
                     | Some ticketData \<Rightarrow>
                         (case (getProp ticketData (js ''id''), getProp ticketData (js ''uri'')) of
                            (Some ticketId, Some uri) \<Rightarrow>
                              (case String_opt ticketId of
                                 None \<Rightarrow> (500, InternalFailure TypeError)
                               | Some idText \<Rightarrow>
                                   (200,
                                    TicketCreated ticketId
                                      (case uri of
                                         None \<Rightarrow>
                                           JStr (js ''https://'' @ subdomain @
                                             js ''.gorgias.com/app/ticket/'' @ idText)
                                       | Some u \<Rightarrow>
                                           if truthy_json u then u
                                           else JStr (js ''https://'' @ subdomain @
                                             js ''.gorgias.com/app/ticket/'' @ idText))
                                      filesUploaded (length rejectedFiles) rejectedFiles))
                          | _ \<Rightarrow> (500, InternalFailure TypeError)))))"

text \<open>
  The older handler from its first line to its check of the required fields: the
  headers \<open>sendCORS\<close> has set, and the answer when the handler returns there, or the
  fields and files it goes on with to the ticket body, the uploads and the ticket call.
  No line of it reads the origin again, and it has no rate limit.
  \<^verbatim>\<open>
  export default async function handler(req, res) {
    sendCORS(res, req);
    if (req.method === 'OPTIONS') { res.status(204).end(); return; }
    if (req.method !== 'POST') {
      res.status(405).json({ error: 'Method not allowed' });
      return;
    }
    try {
      const { fields, files } = await parseMultipart(req);
      ...
      if (!subdomain || !username || !apiKey) {
        throw new Error('Missing Gorgias API credentials');
      }
      if (!fields.formType || !fields.email) {
        return res.status(400).json({
          error: 'Missing required fields', required: ['formType', 'email'] });
      }
  \<close>
\<close>

definition handlerEntry_agnostic ::
  "env \<Rightarrow> request \<Rightarrow>
     (jsstring \<times> jsstring) list \<times> ((nat \<times> 'r agnosticBody) + fields \<times> files)" where
  "handlerEntry_agnostic e req =
     (sendCORS_agnostic e req,
      if httpMethod req = js ''OPTIONS'' then Inl (204, NoContent)
      else if httpMethod req \<noteq> js ''POST'' then Inl (405, MethodNotAllowed)
      else (case multipart req of
              ParseError \<Rightarrow> Inl (500, InternalFailure ParseRejected)
            | Parsed flds fls \<Rightarrow>
                if credentialsMissing e then Inl (500, InternalFailure MissingCredentials)
                else if requiredMissing flds then Inl (400, MissingRequiredFields)
                else Inr (flds, fls)))"

text \<open>The sample ticket service with a body that cannot be read.\<close>

definition brokenBody :: "ticketPayload \<Rightarrow> fetch_result" where
  "brokenBody p = FetchResponse 503 None"

section \<open>Escaping, one character at a time\<close>

lemma replaceAll_Nil: "replaceAll c r [] = []"
  by (simp add: replaceAll_def)

lemma replaceAll_append:
  "replaceAll c r (xs @ ys) = replaceAll c r xs @ replaceAll c r ys"
  by (simp add: replaceAll_def)

lemma escape_chain_entity:
  "replaceAll (ch (CHR 0x27)) (js ''&#39;'')
     (replaceAll (ch (CHR 0x22)) (js ''&quot;'')
       (replaceAll (ch CHR ''>'') (js ''&gt;'')
         (replaceAll (ch CHR ''<'') (js ''&lt;'')
           (replaceAll (ch CHR ''&'') (js ''&amp;'') [c])))) = entity c"
  by (simp add: replaceAll_def entity_def js_def)

lemma escape_chain_entities:
  "replaceAll (ch (CHR 0x27)) (js ''&#39;'')
     (replaceAll (ch (CHR 0x22)) (js ''&quot;'')
       (replaceAll (ch CHR ''>'') (js ''&gt;'')
         (replaceAll (ch CHR ''<'') (js ''&lt;'')
           (replaceAll (ch CHR ''&'') (js ''&amp;'') s)))) = escapeEntities s"
proof (induction s)
  case Nil
  show ?case by (simp add: replaceAll_Nil escapeEntities_def)
next
  case (Cons c s)
  have split: "c # s = [c] @ s" by simp
  show ?case
    unfolding split replaceAll_append escape_chain_entity Cons.IH
    by (simp add: escapeEntities_def)
qed

lemma escapeHtml_entities: "escapeHtml s = escapeEntities s"
proof (cases "s = []")
  case True
  then show ?thesis by (simp add: escapeHtml_def escapeEntities_def)
next
  case False
  then show ?thesis
    unfolding escapeHtml_def by (simp only: if_False escape_chain_entities)
qed

lemma entity_not_special: "\<not> isSpecial c \<Longrightarrow> entity c = [c]"
  by (simp add: entity_def isSpecial_def)

lemma entity_special:
  "isSpecial c \<Longrightarrow> \<exists>r. entity c = ch CHR ''&'' # r \<and> r \<noteq> []"
  by (auto simp: entity_def isSpecial_def js_def)

lemma set_entity: "x \<in> set (entity c) \<Longrightarrow> x = ch CHR ''&'' \<or> \<not> isSpecial x"
  by (auto simp: entity_def isSpecial_def js_def split: if_splits)

lemma set_escapeEntities:
  "x \<in> set (escapeEntities s) \<Longrightarrow> x = ch CHR ''&'' \<or> \<not> isSpecial x"
  by (auto simp: escapeEntities_def dest: set_entity)

lemma entity_amp_only:
  "x = ch CHR ''&'' \<or> \<not> isSpecial x \<Longrightarrow>
   entity x = (if x = ch CHR ''&'' then js ''&amp;'' else [x])"
  by (auto simp: entity_def isSpecial_def)

lemma escapeEntities_amp_only:
  "(\<forall>x\<in>set t. x = ch CHR ''&'' \<or> \<not> isSpecial x) \<Longrightarrow>
   escapeEntities t = replaceAll (ch CHR ''&'') (js ''&amp;'') t"
proof (induction t)
  case Nil
  show ?case by (simp add: escapeEntities_def replaceAll_def)
next
  case (Cons x t)
  have hd: "entity x = (if x = ch CHR ''&'' then js ''&amp;'' else [x])"
    using Cons.prems by (intro entity_amp_only) simp
  have tl: "escapeEntities t = replaceAll (ch CHR ''&'') (js ''&amp;'') t"
    using Cons by simp
  show ?case
    using hd tl by (simp add: escapeEntities_def replaceAll_def)
qed

lemma escapeEntities_plain:
  "list_all (\<lambda>c. \<not> isSpecial c) s \<Longrightarrow> escapeEntities s = s"
  by (induction s) (simp_all add: escapeEntities_def entity_not_special)

lemma length_entity_ge: "1 \<le> length (entity c)"
  by (simp add: entity_def js_def)

lemma length_entity_special: "isSpecial c \<Longrightarrow> 1 < length (entity c)"
  by (auto simp: entity_def isSpecial_def js_def)

lemma length_escapeEntities_ge: "length s \<le> length (escapeEntities s)"
proof (induction s)
  case Nil
  show ?case by simp
next
  case (Cons c s)
  have "length (escapeEntities (c # s)) = length (entity c) + length (escapeEntities s)"
    by (simp add: escapeEntities_def)
  then show ?case using Cons length_entity_ge [of c] by simp
qed

lemma length_escapeEntities_eq:
  "length (escapeEntities s) = length s \<Longrightarrow> list_all (\<lambda>c. \<not> isSpecial c) s"
proof (induction s)
  case Nil
  show ?case by simp
next
  case (Cons c s)
  have sum: "length (escapeEntities (c # s)) = length (entity c) + length (escapeEntities s)"
    by (simp add: escapeEntities_def)
  have one: "length (entity c) = 1" and rest: "length (escapeEntities s) = length s"
    using sum Cons.prems length_entity_ge [of c] length_escapeEntities_ge [of s] by simp_all
  have "\<not> isSpecial c" using one length_entity_special [of c] by auto
  then show ?case using Cons.IH rest by simp
qed

lemma escapeEntities_has_amp:
  "\<not> list_all (\<lambda>c. \<not> isSpecial c) s \<Longrightarrow> ch CHR ''&'' \<in> set (escapeEntities s)"
proof (induction s)
  case Nil
  then show ?case by simp
next
  case (Cons c s)
  show ?case
  proof (cases "isSpecial c")
    case True
    then obtain r where "entity c = ch CHR ''&'' # r" using entity_special by blast
    then show ?thesis by (simp add: escapeEntities_def)
  next
    case False
    then have "ch CHR ''&'' \<in> set (escapeEntities s)" using Cons by simp
    then show ?thesis by (simp add: escapeEntities_def)
  qed
qed

lemma entity_prefix_free: "entity a @ x = entity b @ y \<Longrightarrow> a = b \<and> x = y"
  by (simp add: entity_def js_def split: if_splits)

lemma escapeEntities_inj: "escapeEntities s = escapeEntities t \<Longrightarrow> s = t"
proof (induction s arbitrary: t)
  case Nil
  have "escapeEntities [] = []" by (simp add: escapeEntities_def)
  then have e: "escapeEntities t = []" using Nil by simp
  have "length t \<le> length (escapeEntities t)" by (rule length_escapeEntities_ge)
  then show ?case unfolding e by simp
next
  case (Cons a s)
  show ?case
  proof (cases t)
    case Nil
    have "escapeEntities [] = []" by (simp add: escapeEntities_def)
    then have e: "escapeEntities (a # s) = []" using Cons.prems Nil by simp
    have "length (a # s) \<le> length (escapeEntities (a # s))" by (rule length_escapeEntities_ge)
    then show ?thesis unfolding e by simp
  next
    case (Cons b t')
    have "entity a @ escapeEntities s = entity b @ escapeEntities t'"
      using Cons.prems Cons by (simp add: escapeEntities_def)
    then have "a = b" and "escapeEntities s = escapeEntities t'"
      using entity_prefix_free by blast+
    then show ?thesis using Cons.IH Cons by simp
  qed
qed

section \<open>Escaping twice\<close>

lemma escapeEntities_twice_amp:
  "escapeEntities (escapeEntities s) = replaceAll (ch CHR ''&'') (js ''&amp;'') (escapeEntities s)"
  by (rule escapeEntities_amp_only) (blast dest: set_escapeEntities)

lemma amp_special: "isSpecial (ch CHR ''&'')"
  by (simp add: isSpecial_def)

lemma escapeEntities_idem_iff:
  "escapeEntities (escapeEntities s) = escapeEntities s \<longleftrightarrow> list_all (\<lambda>c. \<not> isSpecial c) s"
proof
  assume eq: "escapeEntities (escapeEntities s) = escapeEntities s"
  then have "length (escapeEntities (escapeEntities s)) = length (escapeEntities s)" by simp
  then have plain: "list_all (\<lambda>c. \<not> isSpecial c) (escapeEntities s)"
    by (rule length_escapeEntities_eq)
  have "ch CHR ''&'' \<notin> set (escapeEntities s)"
  proof
    assume "ch CHR ''&'' \<in> set (escapeEntities s)"
    then have "\<not> isSpecial (ch CHR ''&'')" using plain by (auto simp: list_all_iff)
    then show False using amp_special by simp
  qed
  then show "list_all (\<lambda>c. \<not> isSpecial c) s"
    using escapeEntities_has_amp by blast
next
  assume "list_all (\<lambda>c. \<not> isSpecial c) s"
  then show "escapeEntities (escapeEntities s) = escapeEntities s"
    by (simp add: escapeEntities_plain)
qed

text \<open>
  Claim C8, as the code has it. \<open>escapeHtml\<close> is not idempotent: applied to its own output
  it rewrites every ampersand, hence the ampersand of every entity, and nothing else
  (\<open>&lt;\<close> becomes \<open>&amp;lt;\<close>). Escaping twice gives the once-escaped string exactly for
  the strings that hold none of the five special characters. No meaning is lost by
  escaping: two different strings never have the same escaped form.
\<close>

theorem escapeHtml_twice:
  "escapeHtml (escapeHtml s) = replaceAll (ch CHR ''&'') (js ''&amp;'') (escapeHtml s)
   \<and> (escapeHtml (escapeHtml s) = escapeHtml s \<longleftrightarrow> list_all (\<lambda>c. \<not> isSpecial c) s)
   \<and> (escapeHtml s = escapeHtml t \<longrightarrow> s = t)"
  unfolding escapeHtml_entities
  using escapeEntities_twice_amp [of s] escapeEntities_idem_iff [of s] escapeEntities_inj [of s t]
  by blast

theorem escapeHtml_twice_witness:
  "escapeHtml (escapeHtml probe) = replaceAll (ch CHR ''&'') (js ''&amp;'') (escapeHtml probe)
   \<and> escapeHtml (escapeHtml (js ''plain text'')) = escapeHtml (js ''plain text'')
   \<and> escapeHtml (js ''<'') \<noteq> escapeHtml (js ''&lt;'')"
proof -
  have plain: "list_all (\<lambda>c. \<not> isSpecial c) (js ''plain text'')"
    by (simp add: js_def isSpecial_def)
  have diff: "js ''<'' \<noteq> js ''&lt;''"
    by (simp add: js_def)
  show ?thesis
    using plain diff escapeHtml_twice [of probe "js ''x''"]
      escapeHtml_twice [of "js ''plain text''" "js ''x''"]
      escapeHtml_twice [of "js ''<''" "js ''&lt;''"]
    by blast
qed

text \<open>
  The claim as stated fails at the probe: escaping the escaped probe escapes the
  converted characters again.
\<close>

theorem escapeHtml_probe_double_escaped:
  "escapeHtml probe = js ''&lt;&gt;&amp;&quot;&#39;''
   \<and> escapeHtml (escapeHtml probe) = js ''&amp;lt;&amp;gt;&amp;amp;&amp;quot;&amp;#39;''
   \<and> escapeHtml (escapeHtml probe) \<noteq> escapeHtml probe"
  by (simp add: escapeHtml_def replaceAll_def probe_def js_def)

section \<open>The ticket body holds escaped data only\<close>

lemma renderFields_concat:
  "renderFields html fs =
     html @ concat (map (\<lambda>(key, val). fieldRow (isLongText val)
       (escapeEntities (formatFieldName key)) (escapeEntities (trim val))) fs)"
proof (induction fs arbitrary: html)
  case Nil
  show ?case by simp
next
  case (Cons f fs)
  obtain key val where f: "f = (key, val)" by (cases f)
  show ?case
    unfolding f by (simp add: Cons.IH renderField_def escapeHtml_entities)
qed

lemma sublist_label_fieldRow: "sublist label (fieldRow b label v)"
  by (simp add: fieldRow_def longRow_def shortRow_def sublist_appendI sublist_append_leftI)

lemma sublist_value_fieldRow: "sublist v (fieldRow b label v)"
proof -
  have "\<exists>ps ss. fieldRow b label v = ps @ v @ ss"
    by (cases b) (simp_all add: fieldRow_def longRow_def shortRow_def, metis append.assoc, metis append.assoc)
  then show ?thesis by (simp add: sublist_def)
qed

lemma sublist_concat_member: "x \<in> set xs \<Longrightarrow> sublist (f x) (concat (map f xs))"
proof -
  assume "x \<in> set xs"
  then obtain ys zs where "xs = ys @ x # zs" by (meson split_list)
  then have "concat (map f xs) = concat (map f ys) @ f x @ concat (map f zs)" by simp
  then show ?thesis by (simp add: sublist_appendI)
qed

lemma generateGenericTicketBody_structure:
  "generateGenericTicketBody formType flds =
     bodyOpen @
     (if dataFields flds = [] then noDataNotice
      else concat (map (\<lambda>(key, val). fieldRow (isLongText val)
             (escapeEntities (formatFieldName key)) (escapeEntities (trim val))) (dataFields flds)))
     @ bodyClose"
  by (simp add: generateGenericTicketBody_def Let_def renderFields_concat)

lemma sublist_row_body:
  assumes "(key, val) \<in> set (dataFields flds)"
  shows "sublist (fieldRow (isLongText val) (escapeEntities (formatFieldName key))
           (escapeEntities (trim val))) (generateGenericTicketBody formType flds)"
proof -
  let ?row = "\<lambda>(key, val). fieldRow (isLongText val)
     (escapeEntities (formatFieldName key)) (escapeEntities (trim val))"
  have ne: "dataFields flds \<noteq> []" using assms by auto
  have "sublist (?row (key, val)) (concat (map ?row (dataFields flds)))"
    using assms by (rule sublist_concat_member)
  then have "sublist (?row (key, val)) (bodyOpen @ concat (map ?row (dataFields flds)) @ bodyClose)"
    by (meson sublist_appendI sublist_order.order.trans)
  then show ?thesis
    using ne by (simp add: generateGenericTicketBody_structure)
qed

text \<open>
  The hardened renderer. The body returned by \<open>generateGenericTicketBody\<close> is the fixed
  markup of the templates and, for every rendered field (not reserved, not blank), its label and its
  trimmed value with each character replaced by \<open>entity\<close>: the five characters
  \<open>< > & " '\<close> become \<open>&lt; &gt; &amp; &quot; &#39;\<close>. So a special character at any
  position of a rendered value stands in the body as its entity, between the escaped
  text before it and the escaped text after it, and the escaped text holds no \<open><\<close>,
  \<open>>\<close> or quote at all and an ampersand only where an entity starts. The five
  replacements of \<open>escapeHtml\<close>, one after the other, give that one-pass escaping.
\<close>

theorem generateGenericTicketBody_escaped:
  "generateGenericTicketBody formType flds =
     bodyOpen @
     (if dataFields flds = [] then noDataNotice
      else concat (map (\<lambda>(key, val). fieldRow (isLongText val)
             (escapeEntities (formatFieldName key)) (escapeEntities (trim val))) (dataFields flds)))
     @ bodyClose
   \<and> ((key, val) \<in> set (dataFields flds) \<longrightarrow>
        sublist (escapeEntities (formatFieldName key)) (generateGenericTicketBody formType flds)
      \<and> sublist (escapeEntities (trim val)) (generateGenericTicketBody formType flds)
      \<and> (\<forall>xs c ys. trim val = xs @ c # ys \<longrightarrow>
            sublist (escapeEntities xs @ entity c @ escapeEntities ys)
              (generateGenericTicketBody formType flds)))
   \<and> (\<forall>x \<in> set (escapeEntities s). x = ch CHR ''&'' \<or> \<not> isSpecial x)
   \<and> escapeHtml s = escapeEntities s"
proof (intro conjI impI allI ballI)
  show "generateGenericTicketBody formType flds =
     bodyOpen @
     (if dataFields flds = [] then noDataNotice
      else concat (map (\<lambda>(key, val). fieldRow (isLongText val)
             (escapeEntities (formatFieldName key)) (escapeEntities (trim val))) (dataFields flds)))
     @ bodyClose"
    by (rule generateGenericTicketBody_structure)
next
  assume "(key, val) \<in> set (dataFields flds)"
  then have "sublist (fieldRow (isLongText val) (escapeEntities (formatFieldName key))
           (escapeEntities (trim val))) (generateGenericTicketBody formType flds)"
    by (rule sublist_row_body)
  then show "sublist (escapeEntities (formatFieldName key)) (generateGenericTicketBody formType flds)"
    by (meson sublist_label_fieldRow sublist_order.order.trans)
next
  assume "(key, val) \<in> set (dataFields flds)"
  then have "sublist (fieldRow (isLongText val) (escapeEntities (formatFieldName key))
           (escapeEntities (trim val))) (generateGenericTicketBody formType flds)"
    by (rule sublist_row_body)
  then show "sublist (escapeEntities (trim val)) (generateGenericTicketBody formType flds)"
    by (meson sublist_value_fieldRow sublist_order.order.trans)
next
  fix xs c ys
  assume mem: "(key, val) \<in> set (dataFields flds)" and dec: "trim val = xs @ c # ys"
  from mem have "sublist (fieldRow (isLongText val) (escapeEntities (formatFieldName key))
           (escapeEntities (trim val))) (generateGenericTicketBody formType flds)"
    by (rule sublist_row_body)
  then have "sublist (escapeEntities (trim val)) (generateGenericTicketBody formType flds)"
    by (meson sublist_value_fieldRow sublist_order.order.trans)
  moreover have "escapeEntities (trim val) = escapeEntities xs @ entity c @ escapeEntities ys"
    by (simp add: dec escapeEntities_def)
  ultimately show "sublist (escapeEntities xs @ entity c @ escapeEntities ys)
      (generateGenericTicketBody formType flds)"
    by simp
next
  fix x
  assume "x \<in> set (escapeEntities s)"
  then show "x = ch CHR ''&'' \<or> \<not> isSpecial x" by (rule set_escapeEntities)
next
  show "escapeHtml s = escapeEntities s" by (rule escapeHtml_entities)
qed

theorem generateGenericTicketBody_escaped_witness:
  "generateGenericTicketBody (js ''contact-form'')
     [(js ''formType'', js ''contact-form''), (js ''userNote'', js '' <b>'')] =
     bodyOpen @ shortRow (js ''User Note'') (js ''&lt;b&gt;'') @ bodyClose
   \<and> sublist (js ''&lt;b&gt;'')
       (generateGenericTicketBody (js ''contact-form'')
         [(js ''formType'', js ''contact-form''), (js ''userNote'', js '' <b>'')])
   \<and> ch CHR ''<'' \<notin> set (escapeEntities (js '' <b>''))"
proof -
  let ?flds = "[(js ''formType'', js ''contact-form''), (js ''userNote'', js '' <b>'')]"
  have df: "dataFields ?flds = [(js ''userNote'', js '' <b>'')]"
    by (simp add: dataFields_def RESERVED_FIELDS_def js_def trim_def isWhiteSpace_def)
  have tr: "trim (js '' <b>'') = js ''<b>''"
    by (simp add: js_def trim_def isWhiteSpace_def)
  have ff: "formatFieldName (js ''userNote'') = js ''User Note''"
    by (simp add: formatFieldName_def js_def trim_def isWhiteSpace_def spaceSeparators_def
        isWordChar_def isLower_def isUpper_def isDigit_def toUpperCase_def)
  have ee: "escapeEntities (js ''<b>'') = js ''&lt;b&gt;''"
    by (simp add: js_def escapeEntities_def entity_def)
  have il: "\<not> isLongText (js '' <b>'')"
    by (simp add: isLongText_def js_def trim_def isWhiteSpace_def)
  have el: "escapeEntities (js ''User Note'') = js ''User Note''"
    by (simp add: js_def escapeEntities_def entity_def)
  have sp: "isSpecial (ch CHR ''<'')" "ch CHR ''<'' \<noteq> ch CHR ''&''"
    by (simp_all add: isSpecial_def)
  have mem: "(js ''userNote'', js '' <b>'') \<in> set (dataFields ?flds)"
    by (simp add: df)
  show ?thesis
    using generateGenericTicketBody_escaped
      [of "js ''contact-form''" ?flds "js ''userNote''" "js '' <b>''" "js '' <b>''"] mem sp
    by (auto simp: df tr ff ee il el fieldRow_def)
qed

text \<open>
  Claim C1 at the input where the code departs from it: a field \<open>userNote\<close> with the
  value \<open> <b>\<close>. The older copy of \<open>generateGenericTicketBody\<close> puts the label and the
  trimmed value into the markup as they are, so its body holds the tag \<open><b>\<close> itself
  and holds \<open><\<close> unescaped inside the value; the hardened renderer gives \<open>&lt;b&gt;\<close>
  for the same field.
\<close>

theorem older_renderer_unescaped:
  "generateGenericTicketBody_agnostic (js ''contact-form'')
     [(js ''formType'', js ''contact-form''), (js ''userNote'', js '' <b>'')] =
     bodyOpen @ shortRow (js ''User Note'') (js ''<b>'') @ bodyClose
   \<and> generateGenericTicketBody (js ''contact-form'')
     [(js ''formType'', js ''contact-form''), (js ''userNote'', js '' <b>'')] =
     bodyOpen @ shortRow (js ''User Note'') (js ''&lt;b&gt;'') @ bodyClose"
proof (rule conjI)
  let ?flds = "[(js ''formType'', js ''contact-form''), (js ''userNote'', js '' <b>'')]"
  have df: "dataFields_agnostic ?flds = [(js ''userNote'', js '' <b>'')]"
    by (simp add: dataFields_agnostic_def RESERVED_FIELDS_agnostic_def js_def trim_def
        isWhiteSpace_def)
  have tr: "trim (js '' <b>'') = js ''<b>''"
    by (simp add: js_def trim_def isWhiteSpace_def)
  have ff: "formatFieldName (js ''userNote'') = js ''User Note''"
    by (simp add: formatFieldName_def js_def trim_def isWhiteSpace_def spaceSeparators_def
        isWordChar_def isLower_def isUpper_def isDigit_def toUpperCase_def)
  have short: "\<not> (length (js ''<b>'') > 100 \<or> ch CHR 0x0A \<in> set (js ''<b>''))"
    by (simp add: js_def)
  show "generateGenericTicketBody_agnostic (js ''contact-form'') ?flds =
     bodyOpen @ shortRow (js ''User Note'') (js ''<b>'') @ bodyClose"
    using short
    by (simp add: generateGenericTicketBody_agnostic_def df renderField_agnostic_def tr ff
        fieldRow_def Let_def)
  show "generateGenericTicketBody (js ''contact-form'') ?flds =
     bodyOpen @ shortRow (js ''User Note'') (js ''&lt;b&gt;'') @ bodyClose"
    using generateGenericTicketBody_escaped_witness by blast
qed


section \<open>The paths of the handler\<close>

lemma ticketResponse_status: "fst (ticketResponse e p u r) \<in> {200, 500, 502}"
  by (simp add: ticketResponse_def split: fetch_result.splits option.splits)

lemma ticketStage_status: "fst (fst (ticketStage e f fl c)) \<in> {200, 500, 502}"
  using ticketResponse_status
  by (simp add: ticketStage_def Let_def split: prod.splits)

lemma validationError_status: "validationError e f = Some (code, msg) \<Longrightarrow> code \<in> {400, 500}"
  by (auto simp: validationError_def split: if_splits)

lemma submit_status: "fst (fst (submit e f fl)) \<in> {200, 400, 403, 500, 502}"
proof (cases "validationError e f")
  case None
  then show ?thesis
    using ticketStage_status [of e "sanitizeSubject f" fl]
    by (auto simp: submit_def Let_def)
next
  case (Some a)
  obtain code msg where a: "a = (code, msg)" by (cases a)
  show ?thesis
    using Some validationError_status [of e f code msg] by (auto simp: submit_def a)
qed

lemma handler_OPTIONS:
  "httpMethod req = js ''OPTIONS'' \<Longrightarrow>
   handler e req st = (\<lparr>status = 204, headers = sendCORS e req, body = NoBody\<rparr>, st, [])"
  by (simp add: handler_def)

lemma OPTIONS_not_POST: "js ''OPTIONS'' \<noteq> js ''POST''"
  by (simp add: js_def)

lemma handler_not_POST:
  "httpMethod req \<noteq> js ''OPTIONS'' \<Longrightarrow> httpMethod req \<noteq> js ''POST'' \<Longrightarrow>
   handler e req st =
     (\<lparr>status = 405, headers = sendCORS e req, body = ErrorBody (js ''Method not allowed'')\<rparr>, st, [])"
  by (simp add: handler_def)

lemma handler_forbidden:
  "httpMethod req = js ''POST'' \<Longrightarrow> originForbidden e req \<Longrightarrow>
   handler e req st =
     (\<lparr>status = 403, headers = sendCORS e req, body = ErrorBody (js ''Forbidden'')\<rparr>, st, [])"
  by (simp add: handler_def OPTIONS_not_POST [symmetric])

lemma handler_limited:
  "httpMethod req = js ''POST'' \<Longrightarrow> \<not> originForbidden e req \<Longrightarrow>
   checkRateLimit (now e) (clientIp req) (rateLimitMap st) = (False, m) \<Longrightarrow>
   handler e req st =
     (\<lparr>status = 429, headers = sendCORS e req,
       body = ErrorBody (js ''Too many requests. Please wait a moment.'')\<rparr>,
      st\<lparr>rateLimitMap := m\<rparr>, [])"
  by (simp add: handler_def OPTIONS_not_POST [symmetric])

lemma handler_parse_error:
  "httpMethod req = js ''POST'' \<Longrightarrow> \<not> originForbidden e req \<Longrightarrow>
   checkRateLimit (now e) (clientIp req) (rateLimitMap st) = (True, m) \<Longrightarrow>
   multipart req = ParseError \<Longrightarrow>
   handler e req st =
     (\<lparr>status = 500, headers = sendCORS e req, body = ErrorBody genericError\<rparr>,
      st\<lparr>rateLimitMap := m\<rparr>, [])"
  by (simp add: handler_def OPTIONS_not_POST [symmetric] cleanupTempFiles_def)

lemma handler_parsed:
  "httpMethod req = js ''POST'' \<Longrightarrow> \<not> originForbidden e req \<Longrightarrow>
   checkRateLimit (now e) (clientIp req) (rateLimitMap st) = (True, m) \<Longrightarrow>
   multipart req = Parsed flds fls \<Longrightarrow>
   handler e req st =
     (\<lparr>status = fst (fst (submit e flds fls)), headers = sendCORS e req,
       body = snd (fst (submit e flds fls))\<rparr>,
      st\<lparr>rateLimitMap := m,
         tmpfiles := cleanupTempFiles e (Some fls) (tmpfiles st \<union> set (map filepath (allFiles fls)))\<rparr>,
      snd (submit e flds fls))"
  by (simp add: handler_def OPTIONS_not_POST [symmetric] split: prod.splits)

section \<open>The rate limiter\<close>

lemma checkRateLimit_new:
  "m ip = None \<or> (\<exists>r. m ip = Some r \<and> t - start r > RATE_WINDOW) \<Longrightarrow>
   checkRateLimit t ip m = (True, m(ip \<mapsto> \<lparr>start = t, count = 1\<rparr>))"
  by (auto simp: checkRateLimit_def)

lemma checkRateLimit_within:
  "m ip = Some r \<Longrightarrow> t - start r \<le> RATE_WINDOW \<Longrightarrow>
   checkRateLimit t ip m = (count r < RATE_LIMIT, m(ip \<mapsto> r\<lparr>count := count r + 1\<rparr>))"
  by (auto simp: checkRateLimit_def)

lemma checkRateLimit_frame: "ip' \<noteq> ip \<Longrightarrow> snd (checkRateLimit t ip m) ip' = m ip'"
  by (auto simp: checkRateLimit_def split: option.splits)

lemma rateRun_within:
  "m ip = Some \<lparr>start = t1, count = c\<rparr> \<Longrightarrow> \<forall>t \<in> set ts. t - t1 \<le> RATE_WINDOW \<Longrightarrow>
   rateRun ts ip m = map (\<lambda>k. c + k < RATE_LIMIT) [0 ..< length ts]"
proof (induction ts arbitrary: m c)
  case Nil
  show ?case by simp
next
  case (Cons t ts)
  let ?m = "m(ip \<mapsto> \<lparr>start = t1, count = Suc c\<rparr>)"
  have step: "checkRateLimit t ip m = (c < RATE_LIMIT, ?m)"
    using checkRateLimit_within [of m ip "\<lparr>start = t1, count = c\<rparr>" t] Cons.prems by simp
  have rest: "rateRun ts ip ?m = map (\<lambda>k. Suc c + k < RATE_LIMIT) [0 ..< length ts]"
    using Cons.prems by (intro Cons.IH) simp_all
  have shift: "[0 ..< length (t # ts)] = 0 # map Suc [0 ..< length ts]"
    by (simp add: upt_conv_Cons map_Suc_upt del: upt_Suc)
  show ?case
    unfolding shift by (simp add: step rest comp_def)
qed

lemma rateRun_window:
  assumes new: "m ip = None \<or> (\<exists>r. m ip = Some r \<and> t1 - start r > RATE_WINDOW)"
    and within: "\<forall>t \<in> set ts. t - t1 \<le> RATE_WINDOW"
  shows "rateRun (t1 # ts) ip m = map (\<lambda>k. k < RATE_LIMIT) [0 ..< Suc (length ts)]"
proof -
  let ?m = "m(ip \<mapsto> \<lparr>start = t1, count = Suc 0\<rparr>)"
  have first: "checkRateLimit t1 ip m = (True, ?m)" using checkRateLimit_new [of m ip t1] new by simp
  have rest: "rateRun ts ip ?m = map (\<lambda>k. Suc 0 + k < RATE_LIMIT) [0 ..< length ts]"
    using within by (intro rateRun_within) simp_all
  have shift: "[0 ..< Suc (length ts)] = 0 # map Suc [0 ..< length ts]"
    by (simp add: upt_conv_Cons map_Suc_upt del: upt_Suc)
  show ?thesis
    unfolding shift by (simp add: first rest comp_def RATE_LIMIT_def)
qed

section \<open>The sample deployment at work\<close>

lemma sample_clientIp: "clientIp (sampleRequest m orig parsed) = sampleIp"
  by (simp add: clientIp_def sampleRequest_def sampleIp_def js_def trim_def isWhiteSpace_def
      truthy_def orElse_def orStr_def)

lemma sample_allowed: "\<not> originForbidden (sampleEnv\<lparr>now := t\<rparr>) (sampleRequest m shopOrigin parsed)"
  by (simp add: originForbidden_def sampleEnv_def sampleRequest_def shopOrigin_def js_def)

lemma sample_credentials: "\<not> credentialsMissing (sampleEnv\<lparr>now := t\<rparr>)"
  by (simp add: credentialsMissing_def sampleEnv_def truthy_def js_def)

lemma submit_empty_form:
  "submit (sampleEnv\<lparr>now := t\<rparr>) [] [] = ((400, ErrorBody (js ''Missing required fields'')), [])"
  by (simp add: submit_def validationError_def sample_credentials requiredMissing_def getField_def
      truthy_def)

lemma handler_empty_form:
  "status (fst (handler (sampleEnv\<lparr>now := t\<rparr>) emptyForm st)) =
     (if fst (checkRateLimit t sampleIp (rateLimitMap st)) then 400 else 429)
   \<and> rateLimitMap (fst (snd (handler (sampleEnv\<lparr>now := t\<rparr>) emptyForm st))) =
       snd (checkRateLimit t sampleIp (rateLimitMap st))"
proof (cases "checkRateLimit t sampleIp (rateLimitMap st)")
  case (Pair allowed m)
  have post: "httpMethod emptyForm = js ''POST''" and mp: "multipart emptyForm = Parsed [] []"
    by (simp_all add: emptyForm_def sampleRequest_def)
  have orig: "\<not> originForbidden (sampleEnv\<lparr>now := t\<rparr>) emptyForm"
    unfolding emptyForm_def by (rule sample_allowed)
  have rl: "checkRateLimit (now (sampleEnv\<lparr>now := t\<rparr>)) (clientIp emptyForm) (rateLimitMap st) = (allowed, m)"
    using Pair by (simp add: emptyForm_def sample_clientIp)
  show ?thesis
  proof (cases allowed)
    case True
    have rl': "checkRateLimit (now (sampleEnv\<lparr>now := t\<rparr>)) (clientIp emptyForm) (rateLimitMap st) = (True, m)"
      using rl True by simp
    show ?thesis
      using handler_parsed [OF post orig rl' mp] Pair True
      by (simp add: submit_empty_form)
  next
    case False
    have rl': "checkRateLimit (now (sampleEnv\<lparr>now := t\<rparr>)) (clientIp emptyForm) (rateLimitMap st) = (False, m)"
      using rl False by simp
    show ?thesis
      using handler_limited [OF post orig rl'] Pair False
      by simp
  qed
qed

lemma serve_burst:
  "serve [(0, emptyForm), (59000, emptyForm), (59001, emptyForm), (59002, emptyForm),
          (59003, emptyForm), (60001, emptyForm), (60002, emptyForm)] sampleEnv freshState
   = [400, 400, 400, 400, 400, 400, 400]"
proof -
  have step: "\<And>t st. handler (sampleEnv\<lparr>now := t\<rparr>) emptyForm st =
      (fst (handler (sampleEnv\<lparr>now := t\<rparr>) emptyForm st),
       fst (snd (handler (sampleEnv\<lparr>now := t\<rparr>) emptyForm st)),
       snd (snd (handler (sampleEnv\<lparr>now := t\<rparr>) emptyForm st)))"
    by simp
  show ?thesis
    apply (subst serve.simps, subst step, simp only: prod.case handler_empty_form)+
    apply (simp add: freshState_def checkRateLimit_def RATE_WINDOW_def RATE_LIMIT_def)
    done
qed


lemma handler_headers: "headers (fst (handler e req st)) = sendCORS e req"
  by (simp add: handler_def Let_def split: prod.splits parse_result.splits)

lemma sendCORS_no_origin:
  "origin req \<notin> Some ` set (allowedOrigins e) \<Longrightarrow>
   js ''Access-Control-Allow-Origin'' \<notin> fst ` set (sendCORS e req)"
proof (cases "origin req")
  case None
  then show ?thesis by (simp add: sendCORS_def js_def)
next
  case (Some orig)
  assume "origin req \<notin> Some ` set (allowedOrigins e)"
  then have "orig \<notin> set (allowedOrigins e)" using Some by auto
  then show ?thesis using Some by (simp add: sendCORS_def js_def)
qed

lemma not_allowed_forbidden:
  "origin req \<notin> Some ` set (allowedOrigins e) \<Longrightarrow> originForbidden e req"
proof (cases "origin req")
  case None
  then show ?thesis by (simp add: originForbidden_def)
next
  case (Some orig)
  assume "origin req \<notin> Some ` set (allowedOrigins e)"
  then have "orig \<notin> set (allowedOrigins e)" using Some by auto
  then show ?thesis using Some by (simp add: originForbidden_def)
qed

lemma handler_429_iff:
  assumes post: "httpMethod req = js ''POST''" and orig: "\<not> originForbidden e req"
  shows "(status (fst (handler e req st)) = 429 \<longleftrightarrow>
            \<not> fst (checkRateLimit (now e) (clientIp req) (rateLimitMap st)))
         \<and> rateLimitMap (fst (snd (handler e req st))) =
             snd (checkRateLimit (now e) (clientIp req) (rateLimitMap st))"
proof (cases "checkRateLimit (now e) (clientIp req) (rateLimitMap st)")
  case (Pair allowed m)
  show ?thesis
  proof (cases allowed)
    case False
    then have rl: "checkRateLimit (now e) (clientIp req) (rateLimitMap st) = (False, m)"
      using Pair by simp
    show ?thesis using handler_limited [OF post orig rl] rl by simp
  next
    case True
    then have rl: "checkRateLimit (now e) (clientIp req) (rateLimitMap st) = (True, m)"
      using Pair by simp
    show ?thesis
    proof (cases "multipart req")
      case ParseError
      show ?thesis using handler_parse_error [OF post orig rl ParseError] rl by simp
    next
      case (Parsed flds fls)
      have "fst (fst (submit e flds fls)) \<noteq> 429"
        using submit_status [of e flds fls] by auto
      then show ?thesis using handler_parsed [OF post orig rl Parsed] rl by simp
    qed
  qed
qed

section \<open>The rate limit, the origin and the required fields\<close>

text \<open>
  Claim C2, as the code has it. The limiter counts in a fixed window that the first
  request of a client opens: a request that finds no record, or a record whose window
  started more than 60000 ms ago, passes and sets the counter to 1 with a new start; a
  request inside the window with five or more counted is refused. So of the requests
  that follow a window's first request within 60 seconds, the first four pass and every
  later one is refused: the sixth request of the window is the first to be refused. The
  records of other clients are untouched. The handler answers 429 exactly when the
  limiter refuses (for a POST from an allowed origin), and stores the limiter's map.
\<close>

theorem rateLimit_fixed_window:
  "(m ip = None \<or> (\<exists>r. m ip = Some r \<and> t - start r > RATE_WINDOW) \<longrightarrow>
      checkRateLimit t ip m = (True, m(ip \<mapsto> \<lparr>start = t, count = 1\<rparr>)))
   \<and> (m ip = Some r \<and> t - start r \<le> RATE_WINDOW \<and> RATE_LIMIT \<le> count r \<longrightarrow>
        \<not> fst (checkRateLimit t ip m))
   \<and> ((m ip = None \<or> (\<exists>r. m ip = Some r \<and> t1 - start r > RATE_WINDOW)) \<and>
        (\<forall>t \<in> set ts. t - t1 \<le> RATE_WINDOW) \<longrightarrow>
        rateRun (t1 # ts) ip m = map (\<lambda>k. k < RATE_LIMIT) [0 ..< Suc (length ts)])
   \<and> (ip' \<noteq> ip \<longrightarrow> snd (checkRateLimit t ip m) ip' = m ip')
   \<and> (httpMethod req = js ''POST'' \<and> \<not> originForbidden e req \<longrightarrow>
        (status (fst (handler e req st)) = 429 \<longleftrightarrow>
           \<not> fst (checkRateLimit (now e) (clientIp req) (rateLimitMap st)))
        \<and> rateLimitMap (fst (snd (handler e req st))) =
            snd (checkRateLimit (now e) (clientIp req) (rateLimitMap st)))
   \<and> RATE_LIMIT = 5 \<and> RATE_WINDOW = 60000"
proof (intro conjI impI)
  assume "m ip = None \<or> (\<exists>r. m ip = Some r \<and> t - start r > RATE_WINDOW)"
  then show "checkRateLimit t ip m = (True, m(ip \<mapsto> \<lparr>start = t, count = 1\<rparr>))"
    by (rule checkRateLimit_new)
next
  assume "m ip = Some r \<and> t - start r \<le> RATE_WINDOW \<and> RATE_LIMIT \<le> count r"
  then show "\<not> fst (checkRateLimit t ip m)"
    using checkRateLimit_within [of m ip r t] by simp
next
  assume "(m ip = None \<or> (\<exists>r. m ip = Some r \<and> t1 - start r > RATE_WINDOW)) \<and>
        (\<forall>t \<in> set ts. t - t1 \<le> RATE_WINDOW)"
  then show "rateRun (t1 # ts) ip m = map (\<lambda>k. k < RATE_LIMIT) [0 ..< Suc (length ts)]"
    using rateRun_window [of m ip t1 ts] by blast
next
  assume "ip' \<noteq> ip"
  then show "snd (checkRateLimit t ip m) ip' = m ip'" by (rule checkRateLimit_frame)
next
  assume a: "httpMethod req = js ''POST'' \<and> \<not> originForbidden e req"
  then show "status (fst (handler e req st)) = 429 \<longleftrightarrow>
           \<not> fst (checkRateLimit (now e) (clientIp req) (rateLimitMap st))"
    using handler_429_iff [of req e st] by blast
  from a show "rateLimitMap (fst (snd (handler e req st))) =
            snd (checkRateLimit (now e) (clientIp req) (rateLimitMap st))"
    using handler_429_iff [of req e st] by blast
qed (simp_all add: RATE_LIMIT_def RATE_WINDOW_def)

theorem rateLimit_fixed_window_witness:
  "checkRateLimit 0 sampleIp Map.empty = (True, [sampleIp \<mapsto> \<lparr>start = 0, count = 1\<rparr>])
   \<and> \<not> fst (checkRateLimit 60000 sampleIp [sampleIp \<mapsto> \<lparr>start = 0, count = 5\<rparr>])
   \<and> rateRun [0, 1000, 2000, 3000, 4000, 60000] sampleIp Map.empty =
        [True, True, True, True, True, False]
   \<and> snd (checkRateLimit 0 (js ''198.51.100.7'') [sampleIp \<mapsto> \<lparr>start = 0, count = 5\<rparr>]) sampleIp =
        Some \<lparr>start = 0, count = 5\<rparr>
   \<and> status (fst (handler (sampleEnv\<lparr>now := 60000\<rparr>) emptyForm
        \<lparr>rateLimitMap = [sampleIp \<mapsto> \<lparr>start = 0, count = 5\<rparr>], tmpfiles = {}\<rparr>)) = 429"
proof -
  let ?m = "[sampleIp \<mapsto> \<lparr>start = 0, count = 5\<rparr>]"
  let ?st = "\<lparr>rateLimitMap = ?m, tmpfiles = {}\<rparr>"
  let ?e = "sampleEnv\<lparr>now := 60000\<rparr>"
  have post: "httpMethod emptyForm = js ''POST''"
    by (simp add: emptyForm_def sampleRequest_def)
  have orig: "\<not> originForbidden ?e emptyForm"
    unfolding emptyForm_def by (rule sample_allowed)
  have ip: "clientIp emptyForm = sampleIp"
    unfolding emptyForm_def by (rule sample_clientIp)
  have upt: "[0 ..< Suc (length [1000, 2000, 3000, 4000, 60000 :: int])] = [0, 1, 2, 3, 4, 5]"
    by (simp add: upt_rec)
  note w1 = rateLimit_fixed_window
    [of "Map.empty" sampleIp 0 "\<lparr>start = 0, count = 5\<rparr>" 0 "[1000, 2000, 3000, 4000, 60000]"
        sampleIp emptyForm ?e ?st]
  note w2 = rateLimit_fixed_window
    [of ?m sampleIp 60000 "\<lparr>start = 0, count = 5\<rparr>" 0 "[]" sampleIp emptyForm ?e ?st]
  have c1: "checkRateLimit 0 sampleIp Map.empty = (True, [sampleIp \<mapsto> \<lparr>start = 0, count = 1\<rparr>])"
    using w1 [THEN conjunct1] by simp
  have c2: "\<not> fst (checkRateLimit 60000 sampleIp ?m)"
    using w2 [THEN conjunct2, THEN conjunct1] by (simp add: RATE_LIMIT_def RATE_WINDOW_def)
  have c3: "rateRun [0, 1000, 2000, 3000, 4000, 60000] sampleIp Map.empty =
        [True, True, True, True, True, False]"
    using w1 [THEN conjunct2, THEN conjunct2, THEN conjunct1]
    by (simp add: upt RATE_LIMIT_def RATE_WINDOW_def)
  have c4: "status (fst (handler ?e emptyForm ?st)) = 429"
    using w2 [THEN conjunct2, THEN conjunct2, THEN conjunct2, THEN conjunct2, THEN conjunct1]
      post orig c2
    by (simp add: ip)
  have other: "sampleIp \<noteq> js ''198.51.100.7''"
    by (simp add: sampleIp_def js_def)
  have c5: "snd (checkRateLimit 0 (js ''198.51.100.7'') ?m) sampleIp = Some \<lparr>start = 0, count = 5\<rparr>"
    using rateLimit_fixed_window
      [of ?m "js ''198.51.100.7''" 0 "\<lparr>start = 0, count = 5\<rparr>" 0 "[]" sampleIp emptyForm ?e ?st,
        THEN conjunct2, THEN conjunct2, THEN conjunct2, THEN conjunct1] other
    by simp
  show ?thesis using c1 c2 c3 c4 c5 by blast
qed

text \<open>
  The claim as stated fails for a rolling window: seven requests of one client at 0,
  59000, 59001, 59002, 59003, 60001 and 60002 ms all pass the limiter. The last six
  arrive within 1002 ms, and the sixth of them is answered 400 (the form is empty),
  not 429: the window that the first request opened has expired at 60001 ms, and the
  counter starts again at 1.
\<close>

theorem rateLimit_rolling_window_counterexample:
  "rateRun [0, 59000, 59001, 59002, 59003, 60001, 60002] sampleIp Map.empty =
     [True, True, True, True, True, True, True]
   \<and> serve [(0, emptyForm), (59000, emptyForm), (59001, emptyForm), (59002, emptyForm),
            (59003, emptyForm), (60001, emptyForm), (60002, emptyForm)] sampleEnv freshState =
     [400, 400, 400, 400, 400, 400, 400]"
proof (rule conjI)
  show "rateRun [0, 59000, 59001, 59002, 59003, 60001, 60002] sampleIp Map.empty =
     [True, True, True, True, True, True, True]"
    by (simp add: checkRateLimit_def RATE_WINDOW_def RATE_LIMIT_def)
  show "serve [(0, emptyForm), (59000, emptyForm), (59001, emptyForm), (59002, emptyForm),
            (59003, emptyForm), (60001, emptyForm), (60002, emptyForm)] sampleEnv freshState =
     [400, 400, 400, 400, 400, 400, 400]"
    by (rule serve_burst)
qed


text \<open>
  The hardened handler. A request whose Origin header is missing or is not in the
  allow-list gets no \<open>Access-Control-Allow-Origin\<close> header, whatever its method; when it
  is a POST, the answer is 403 \<open>Forbidden\<close>, the state is unchanged and no call is made.
  A preflight (\<open>OPTIONS\<close>) is answered 204 and any other method 405 before the origin
  is enforced.
\<close>

theorem origin_not_allowed:
  "origin req \<notin> Some ` set (allowedOrigins e) \<longrightarrow>
     js ''Access-Control-Allow-Origin'' \<notin> fst ` set (headers (fst (handler e req st)))
   \<and> (httpMethod req = js ''POST'' \<longrightarrow>
        handler e req st =
          (\<lparr>status = 403, headers = sendCORS e req, body = ErrorBody (js ''Forbidden'')\<rparr>, st, []))
   \<and> (httpMethod req = js ''OPTIONS'' \<longrightarrow> status (fst (handler e req st)) = 204)
   \<and> (httpMethod req \<noteq> js ''OPTIONS'' \<and> httpMethod req \<noteq> js ''POST'' \<longrightarrow>
        status (fst (handler e req st)) = 405)"
proof (intro impI conjI)
  assume a: "origin req \<notin> Some ` set (allowedOrigins e)"
  show "js ''Access-Control-Allow-Origin'' \<notin> fst ` set (headers (fst (handler e req st)))"
    unfolding handler_headers using a by (rule sendCORS_no_origin)
  show "handler e req st =
          (\<lparr>status = 403, headers = sendCORS e req, body = ErrorBody (js ''Forbidden'')\<rparr>, st, [])"
    if "httpMethod req = js ''POST''"
    using that not_allowed_forbidden [OF a] by (rule handler_forbidden)
  show "status (fst (handler e req st)) = 204" if "httpMethod req = js ''OPTIONS''"
    using that by (simp add: handler_OPTIONS)
  show "status (fst (handler e req st)) = 405"
    if "httpMethod req \<noteq> js ''OPTIONS'' \<and> httpMethod req \<noteq> js ''POST''"
    using that by (simp add: handler_not_POST)
qed

lemma evil_not_allowed:
  "origin (sampleRequest m evilOrigin parsed) \<notin> Some ` set (allowedOrigins sampleEnv)"
  by (simp add: sampleRequest_def sampleEnv_def evilOrigin_def shopOrigin_def js_def)

theorem origin_not_allowed_witness:
  "status (fst (handler sampleEnv (sampleRequest (js ''POST'') evilOrigin (Parsed [] [])) freshState)) = 403
   \<and> body (fst (handler sampleEnv (sampleRequest (js ''POST'') evilOrigin (Parsed [] [])) freshState)) =
        ErrorBody (js ''Forbidden'')
   \<and> js ''Access-Control-Allow-Origin'' \<notin>
        fst ` set (headers (fst (handler sampleEnv
          (sampleRequest (js ''POST'') evilOrigin (Parsed [] [])) freshState)))
   \<and> status (fst (handler sampleEnv (sampleRequest (js ''GET'') evilOrigin ParseError) freshState)) = 405"
proof -
  let ?post = "sampleRequest (js ''POST'') evilOrigin (Parsed [] [])"
  let ?get = "sampleRequest (js ''GET'') evilOrigin ParseError"
  have m1: "httpMethod ?post = js ''POST''"
    by (simp add: sampleRequest_def)
  have m2: "httpMethod ?get \<noteq> js ''OPTIONS'' \<and> httpMethod ?get \<noteq> js ''POST''"
    by (simp add: sampleRequest_def js_def)
  have p: "handler sampleEnv ?post freshState =
          (\<lparr>status = 403, headers = sendCORS sampleEnv ?post, body = ErrorBody (js ''Forbidden'')\<rparr>,
           freshState, [])"
    and h: "js ''Access-Control-Allow-Origin'' \<notin> fst ` set (headers (fst (handler sampleEnv ?post freshState)))"
    using origin_not_allowed [of ?post sampleEnv freshState] evil_not_allowed [of "js ''POST''" "Parsed [] []"] m1
    by blast+
  have g: "status (fst (handler sampleEnv ?get freshState)) = 405"
    using origin_not_allowed [of ?get sampleEnv freshState] evil_not_allowed [of "js ''GET''" ParseError] m2
    by blast
  show ?thesis using p h g by simp
qed

text \<open>
  A preflight in the hardened handler: an \<open>OPTIONS\<close> request from an origin outside the
  allow-list is answered 204.
\<close>

theorem origin_preflight_counterexample:
  "origin (sampleRequest (js ''OPTIONS'') evilOrigin ParseError) \<notin> Some ` set (allowedOrigins sampleEnv)
   \<and> status (fst (handler sampleEnv (sampleRequest (js ''OPTIONS'') evilOrigin ParseError) freshState)) = 204"
proof (rule conjI)
  show "origin (sampleRequest (js ''OPTIONS'') evilOrigin ParseError) \<notin> Some ` set (allowedOrigins sampleEnv)"
    by (rule evil_not_allowed)
  have "httpMethod (sampleRequest (js ''OPTIONS'') evilOrigin ParseError) = js ''OPTIONS''"
    by (simp add: sampleRequest_def)
  then show "status (fst (handler sampleEnv (sampleRequest (js ''OPTIONS'') evilOrigin ParseError) freshState)) = 204"
    by (simp add: handler_OPTIONS)
qed

lemma sendCORS_agnostic_no_origin:
  "origin req \<notin> Some ` set (allowedOrigins e) \<Longrightarrow>
   js ''Access-Control-Allow-Origin'' \<notin> fst ` set (sendCORS_agnostic e req)"
proof (cases "origin req")
  case None
  then show ?thesis by (simp add: sendCORS_agnostic_def js_def)
next
  case (Some orig)
  assume "origin req \<notin> Some ` set (allowedOrigins e)"
  then have "orig \<notin> set (allowedOrigins e)" using Some by auto
  then show ?thesis using Some by (simp add: sendCORS_agnostic_def js_def)
qed

lemma sample_required:
  "requiredMissing []" "\<not> requiredMissing sampleFields" "\<not> credentialsMissing sampleEnv"
  by (simp_all add: requiredMissing_def credentialsMissing_def getField_def truthy_def
      sampleFields_def sampleEnv_def js_def)

text \<open>
  Claim C3 at the input where the code departs from it: a POST from
  \<open>https://evil.example\<close>, which the allow-list does not hold. The older copy of the
  handler sets no \<open>Access-Control-Allow-Origin\<close> header, but it never refuses the
  request: with no field it answers 400 for the missing fields, and with the fields of
  a contact form it passes every check and goes on to create the ticket. The hardened
  handler answers 403 to both requests and makes no call.
\<close>

theorem older_handler_origin_not_enforced:
  "origin (sampleRequest (js ''POST'') evilOrigin (Parsed [] [])) \<notin>
     Some ` set (allowedOrigins sampleEnv)
   \<and> snd (handlerEntry_agnostic sampleEnv (sampleRequest (js ''POST'') evilOrigin (Parsed [] []))) =
       (Inl (400, MissingRequiredFields) :: (nat \<times> rejectedFile agnosticBody) + fields \<times> files)
   \<and> snd (handlerEntry_agnostic sampleEnv
         (sampleRequest (js ''POST'') evilOrigin (Parsed sampleFields sampleFiles))) =
       (Inr (sampleFields, sampleFiles) :: (nat \<times> rejectedFile agnosticBody) + fields \<times> files)
   \<and> js ''Access-Control-Allow-Origin'' \<notin>
       fst ` set (fst (handlerEntry_agnostic sampleEnv
         (sampleRequest (js ''POST'') evilOrigin (Parsed [] [])) ::
           (jsstring \<times> jsstring) list \<times> ((nat \<times> rejectedFile agnosticBody) + fields \<times> files)))
   \<and> handler sampleEnv (sampleRequest (js ''POST'') evilOrigin (Parsed [] [])) freshState =
       (\<lparr>status = 403,
         headers = sendCORS sampleEnv (sampleRequest (js ''POST'') evilOrigin (Parsed [] [])),
         body = ErrorBody (js ''Forbidden'')\<rparr>, freshState, [])
   \<and> handler sampleEnv (sampleRequest (js ''POST'') evilOrigin (Parsed sampleFields sampleFiles))
       freshState =
       (\<lparr>status = 403,
         headers = sendCORS sampleEnv
           (sampleRequest (js ''POST'') evilOrigin (Parsed sampleFields sampleFiles)),
         body = ErrorBody (js ''Forbidden'')\<rparr>, freshState, [])"
proof (intro conjI)
  let ?empty = "sampleRequest (js ''POST'') evilOrigin (Parsed [] [])"
  let ?form = "sampleRequest (js ''POST'') evilOrigin (Parsed sampleFields sampleFiles)"
  have m: "httpMethod ?empty = js ''POST''" "httpMethod ?form = js ''POST''"
    "js ''POST'' \<noteq> js ''OPTIONS''"
    by (simp_all add: sampleRequest_def js_def)
  have mp: "multipart ?empty = Parsed [] []" "multipart ?form = Parsed sampleFields sampleFiles"
    by (simp_all add: sampleRequest_def)
  show o: "origin ?empty \<notin> Some ` set (allowedOrigins sampleEnv)"
    by (rule evil_not_allowed)
  have o': "origin ?form \<notin> Some ` set (allowedOrigins sampleEnv)"
    by (rule evil_not_allowed)
  show "snd (handlerEntry_agnostic sampleEnv ?empty) =
       (Inl (400, MissingRequiredFields) :: (nat \<times> rejectedFile agnosticBody) + fields \<times> files)"
    by (simp add: handlerEntry_agnostic_def m mp sample_required)
  show "snd (handlerEntry_agnostic sampleEnv ?form) =
       (Inr (sampleFields, sampleFiles) :: (nat \<times> rejectedFile agnosticBody) + fields \<times> files)"
    by (simp add: handlerEntry_agnostic_def m mp sample_required)
  show "js ''Access-Control-Allow-Origin'' \<notin>
       fst ` set (fst (handlerEntry_agnostic sampleEnv ?empty ::
           (jsstring \<times> jsstring) list \<times> ((nat \<times> rejectedFile agnosticBody) + fields \<times> files)))"
    using sendCORS_agnostic_no_origin [OF o] by (simp add: handlerEntry_agnostic_def)
  show "handler sampleEnv ?empty freshState =
       (\<lparr>status = 403, headers = sendCORS sampleEnv ?empty,
         body = ErrorBody (js ''Forbidden'')\<rparr>, freshState, [])"
    using m(1) not_allowed_forbidden [OF o] by (rule handler_forbidden)
  show "handler sampleEnv ?form freshState =
       (\<lparr>status = 403, headers = sendCORS sampleEnv ?form,
         body = ErrorBody (js ''Forbidden'')\<rparr>, freshState, [])"
    using m(2) not_allowed_forbidden [OF o'] by (rule handler_forbidden)
qed


lemma submit_required_missing:
  "requiredMissing flds \<Longrightarrow>
   submit e flds fls =
     (if credentialsMissing e then ((500, ErrorBody genericError), [])
      else ((400, ErrorBody (js ''Missing required fields'')), []))"
  by (simp add: submit_def validationError_def)

lemma handler_calls_required_missing:
  assumes "multipart req = Parsed flds fls" and "requiredMissing flds"
  shows "snd (snd (handler e req st)) = []"
  using assms
  by (simp add: handler_def Let_def submit_required_missing split: prod.splits)

text \<open>
  Claim C6, as the code has it. A submission in which \<open>formType\<close> or \<open>email\<close> is absent
  or empty never leads to a call to another service, on any path of the handler. When
  it reaches the validation of the fields (a POST from an allowed origin, within the
  rate limit, with the credentials configured), the answer is 400 with the message
  \<open>Missing required fields\<close>.
\<close>

theorem missing_required_fields:
  "multipart req = Parsed flds fls \<and> requiredMissing flds \<longrightarrow>
     snd (snd (handler e req st)) = []
   \<and> (httpMethod req = js ''POST'' \<and> \<not> originForbidden e req \<and>
        fst (checkRateLimit (now e) (clientIp req) (rateLimitMap st)) \<and> \<not> credentialsMissing e \<longrightarrow>
        status (fst (handler e req st)) = 400
      \<and> body (fst (handler e req st)) = ErrorBody (js ''Missing required fields''))"
proof (intro impI conjI)
  assume a: "multipart req = Parsed flds fls \<and> requiredMissing flds"
  then show "snd (snd (handler e req st)) = []"
    using handler_calls_required_missing by blast
  assume b: "httpMethod req = js ''POST'' \<and> \<not> originForbidden e req \<and>
        fst (checkRateLimit (now e) (clientIp req) (rateLimitMap st)) \<and> \<not> credentialsMissing e"
  obtain m where rl: "checkRateLimit (now e) (clientIp req) (rateLimitMap st) = (True, m)"
    using b by (cases "checkRateLimit (now e) (clientIp req) (rateLimitMap st)") auto
  have h: "handler e req st =
     (\<lparr>status = fst (fst (submit e flds fls)), headers = sendCORS e req,
       body = snd (fst (submit e flds fls))\<rparr>,
      st\<lparr>rateLimitMap := m,
         tmpfiles := cleanupTempFiles e (Some fls) (tmpfiles st \<union> set (map filepath (allFiles fls)))\<rparr>,
      snd (submit e flds fls))"
    using a b rl by (intro handler_parsed) simp_all
  have s: "submit e flds fls = ((400, ErrorBody (js ''Missing required fields'')), [])"
    using a b by (simp add: submit_required_missing)
  show "status (fst (handler e req st)) = 400" by (simp add: h s)
  show "body (fst (handler e req st)) = ErrorBody (js ''Missing required fields'')" by (simp add: h s)
qed

lemma required_missing_empty: "requiredMissing []"
  by (simp add: requiredMissing_def getField_def truthy_def)

lemma sample_first_request:
  "fst (checkRateLimit (now (sampleEnv\<lparr>now := t\<rparr>)) (clientIp (sampleRequest m orig parsed))
     (rateLimitMap freshState))"
  by (simp add: checkRateLimit_def freshState_def)

lemma sampleEnv_now: "sampleEnv\<lparr>now := 0\<rparr> = sampleEnv"
  by (simp add: sampleEnv_def)

theorem missing_required_fields_witness:
  "status (fst (handler sampleEnv emptyForm freshState)) = 400
   \<and> body (fst (handler sampleEnv emptyForm freshState)) = ErrorBody (js ''Missing required fields'')
   \<and> snd (snd (handler sampleEnv emptyForm freshState)) = []"
proof -
  have mp: "multipart emptyForm = Parsed [] []" and post: "httpMethod emptyForm = js ''POST''"
    by (simp_all add: emptyForm_def sampleRequest_def)
  have orig: "\<not> originForbidden sampleEnv emptyForm"
    using sample_allowed [of 0 "js ''POST''" "Parsed [] []"] by (simp add: sampleEnv_now emptyForm_def)
  have rl: "fst (checkRateLimit (now sampleEnv) (clientIp emptyForm) (rateLimitMap freshState))"
    using sample_first_request [of 0 "js ''POST''" shopOrigin "Parsed [] []"]
    by (simp add: sampleEnv_now emptyForm_def)
  have cr: "\<not> credentialsMissing sampleEnv"
    using sample_credentials [of 0] by (simp add: sampleEnv_now)
  show ?thesis
    using missing_required_fields [of emptyForm "[]" "[]" sampleEnv freshState]
      mp post orig rl cr required_missing_empty
    by blast
qed

text \<open>
  The claim as stated fails where an earlier guard answers: the same empty form posted
  from an origin outside the allow-list is answered 403, and posted to a deployment
  without its API key it is answered 500.
\<close>

theorem missing_required_fields_counterexample:
  "requiredMissing []
   \<and> status (fst (handler sampleEnv (sampleRequest (js ''POST'') evilOrigin (Parsed [] [])) freshState)) = 403
   \<and> status (fst (handler (sampleEnv\<lparr>GORGIAS_API_KEY := None\<rparr>) emptyForm freshState)) = 500"
proof (intro conjI)
  show "requiredMissing []" by (rule required_missing_empty)
  have "httpMethod (sampleRequest (js ''POST'') evilOrigin (Parsed [] [])) = js ''POST''"
    by (simp add: sampleRequest_def)
  then show "status (fst (handler sampleEnv (sampleRequest (js ''POST'') evilOrigin (Parsed [] [])) freshState)) = 403"
    using not_allowed_forbidden [OF evil_not_allowed [of "js ''POST''" "Parsed [] []"]]
    by (simp add: handler_forbidden)
  let ?e = "sampleEnv\<lparr>GORGIAS_API_KEY := None\<rparr>"
  have mp: "multipart emptyForm = Parsed [] []" and post: "httpMethod emptyForm = js ''POST''"
    by (simp_all add: emptyForm_def sampleRequest_def)
  have orig: "\<not> originForbidden ?e emptyForm"
    by (simp add: originForbidden_def sampleEnv_def emptyForm_def sampleRequest_def shopOrigin_def js_def)
  obtain m where rl: "checkRateLimit (now ?e) (clientIp emptyForm) (rateLimitMap freshState) = (True, m)"
    by (simp add: checkRateLimit_def freshState_def)
  have cr: "credentialsMissing ?e"
    by (simp add: credentialsMissing_def truthy_def)
  have "submit ?e [] [] = ((500, ErrorBody genericError), [])"
    using cr by (simp add: submit_required_missing required_missing_empty)
  then show "status (fst (handler ?e emptyForm freshState)) = 500"
    using handler_parsed [OF post orig rl mp] by simp
qed

section \<open>Cleanup of the temporary files\<close>

lemma unlinkSync_set:
  "unlinkSync e p disk = disk - {q. q = p \<and> \<not> unlink_fails e q}"
  by (auto simp: unlinkSync_def)

lemma unlinkArray_set:
  "unlinkArray e fs disk = disk - {p \<in> filepath ` set fs. \<not> unlink_fails e p}"
proof (induction fs arbitrary: disk)
  case Nil
  show ?case by simp
next
  case (Cons f fs)
  show ?case
    by (simp add: Cons.IH unlinkSync_set) blast
qed

lemma cleanupEntries_set:
  "cleanupEntries e fls disk = disk - {p \<in> filepath ` set (allFiles fls). \<not> unlink_fails e p}"
proof (induction fls arbitrary: disk)
  case Nil
  show ?case by (simp add: allFiles_def)
next
  case (Cons entry fls)
  obtain fieldName fileOrFiles where entry: "entry = (fieldName, fileOrFiles)" by (cases entry)
  show ?case
    unfolding entry by (simp add: Cons.IH unlinkArray_set allFiles_def) blast
qed

lemma uploadAttachment_unlink:
  "uploadAttachmentToGorgias (e\<lparr>unlink_fails := u\<rparr>) f = uploadAttachmentToGorgias e f"
  by (simp add: uploadAttachmentToGorgias_def cong: fetch_result.case_cong option.case_cong if_cong)

lemma uploadArray_unlink:
  "uploadArray (e\<lparr>unlink_fails := u\<rparr>) fs acc = uploadArray e fs acc"
proof (induction fs arbitrary: acc)
  case Nil
  show ?case by simp
next
  case (Cons f fs)
  obtain a b c where acc: "acc = (a, b, c)" by (cases acc)
  show ?case
    unfolding acc by (simp add: uploadAttachment_unlink Cons.IH split: option.splits)
qed

lemma uploadEntries_unlink:
  "uploadEntries (e\<lparr>unlink_fails := u\<rparr>) fls acc = uploadEntries e fls acc"
proof (induction fls arbitrary: acc)
  case Nil
  show ?case by simp
next
  case (Cons entry fls)
  obtain fieldName fileOrFiles where entry: "entry = (fieldName, fileOrFiles)" by (cases entry)
  show ?case
    unfolding entry by (simp add: uploadArray_unlink Cons.IH)
qed

lemma buildPayload_unlink:
  "buildPayload (e\<lparr>unlink_fails := u\<rparr>) flds html ups = buildPayload e flds html ups"
  by (simp add: buildPayload_def INTEGRATION_MAP_def resolveTags_def Let_def
      cong: option.case_cong if_cong)

lemma ticketResponse_unlink:
  "ticketResponse (e\<lparr>unlink_fails := u\<rparr>) p a b = ticketResponse e p a b"
  by (simp add: ticketResponse_def cong: fetch_result.case_cong option.case_cong if_cong)

lemma ticketStage_unlink:
  "ticketStage (e\<lparr>unlink_fails := u\<rparr>) flds fls calls = ticketStage e flds fls calls"
  by (simp add: ticketStage_def uploadEntries_unlink buildPayload_unlink ticketResponse_unlink)

lemma submit_unlink: "submit (e\<lparr>unlink_fails := u\<rparr>) flds fls = submit e flds fls"
  by (simp add: submit_def validationError_def credentialsMissing_def captchaChecked_def
      turnstileRejects_def ticketStage_unlink Let_def
      cong: fetch_result.case_cong option.case_cong if_cong)

lemma sendCORS_unlink: "sendCORS (e\<lparr>unlink_fails := u\<rparr>) req = sendCORS e req"
  by (simp add: sendCORS_def cong: option.case_cong if_cong)

lemma originForbidden_unlink: "originForbidden (e\<lparr>unlink_fails := u\<rparr>) req = originForbidden e req"
  by (simp add: originForbidden_def cong: option.case_cong)

lemma handler_unlink:
  "fst (handler (e\<lparr>unlink_fails := u\<rparr>) req st) = fst (handler e req st)
   \<and> snd (snd (handler (e\<lparr>unlink_fails := u\<rparr>) req st)) = snd (snd (handler e req st))"
proof -
  let ?e = "e\<lparr>unlink_fails := u\<rparr>"
  consider (options) "httpMethod req = js ''OPTIONS''"
    | (other) "httpMethod req \<noteq> js ''OPTIONS''" "httpMethod req \<noteq> js ''POST''"
    | (forbidden) "httpMethod req = js ''POST''" "originForbidden e req"
    | (limited) m where "httpMethod req = js ''POST''" "\<not> originForbidden e req"
        "checkRateLimit (now e) (clientIp req) (rateLimitMap st) = (False, m)"
    | (failed) m where "httpMethod req = js ''POST''" "\<not> originForbidden e req"
        "checkRateLimit (now e) (clientIp req) (rateLimitMap st) = (True, m)"
        "multipart req = ParseError"
    | (parsed) m flds fls where "httpMethod req = js ''POST''" "\<not> originForbidden e req"
        "checkRateLimit (now e) (clientIp req) (rateLimitMap st) = (True, m)"
        "multipart req = Parsed flds fls"
    by (cases "checkRateLimit (now e) (clientIp req) (rateLimitMap st)"; cases "multipart req") auto
  then show ?thesis
  proof cases
    case options
    then show ?thesis by (simp add: handler_OPTIONS sendCORS_unlink)
  next
    case other
    then show ?thesis by (simp add: handler_not_POST sendCORS_unlink)
  next
    case forbidden
    then show ?thesis by (simp add: handler_forbidden sendCORS_unlink originForbidden_unlink)
  next
    case limited
    then show ?thesis
      using handler_limited [of req e st m] handler_limited [of req ?e st m]
      by (simp add: sendCORS_unlink originForbidden_unlink)
  next
    case failed
    then show ?thesis
      using handler_parse_error [of req e st m] handler_parse_error [of req ?e st m]
      by (simp add: sendCORS_unlink originForbidden_unlink)
  next
    case parsed
    then show ?thesis
      using handler_parsed [of req e st m flds fls] handler_parsed [of req ?e st m flds fls]
      by (simp add: sendCORS_unlink originForbidden_unlink submit_unlink)
  qed
qed

text \<open>
  Claim C7. On every path of a POST the temporary files of the parse are gone after the
  handler, but for those whose deletion fails. When the parse ran and succeeded, the
  disk afterwards is the disk before plus the parsed files, minus every parsed file whose
  \<open>unlinkSync\<close> does not fail; on the other paths (origin refused, rate limit, parse
  error) no file was produced and the disk is unchanged. A failing deletion is
  swallowed: the answer and the calls are the same whatever \<open>unlinkSync\<close> does.
\<close>

theorem cleanup_on_every_path:
  "httpMethod req = js ''POST'' \<longrightarrow>
     (multipart req = Parsed flds fls \<and> \<not> originForbidden e req \<and>
        fst (checkRateLimit (now e) (clientIp req) (rateLimitMap st)) \<longrightarrow>
        tmpfiles (fst (snd (handler e req st))) =
          (tmpfiles st \<union> filepath ` set (allFiles fls))
            - {p \<in> filepath ` set (allFiles fls). \<not> unlink_fails e p}
      \<and> (\<forall>f \<in> set (allFiles fls). \<not> unlink_fails e (filepath f) \<longrightarrow>
            filepath f \<notin> tmpfiles (fst (snd (handler e req st)))))
   \<and> (originForbidden e req \<or> \<not> fst (checkRateLimit (now e) (clientIp req) (rateLimitMap st))
        \<or> multipart req = ParseError \<longrightarrow>
        tmpfiles (fst (snd (handler e req st))) = tmpfiles st)
   \<and> fst (handler (e\<lparr>unlink_fails := u\<rparr>) req st) = fst (handler e req st)
   \<and> snd (snd (handler (e\<lparr>unlink_fails := u\<rparr>) req st)) = snd (snd (handler e req st))"
proof (intro impI conjI)
  assume post: "httpMethod req = js ''POST''"
  show "fst (handler (e\<lparr>unlink_fails := u\<rparr>) req st) = fst (handler e req st)"
    using handler_unlink by blast
  show "snd (snd (handler (e\<lparr>unlink_fails := u\<rparr>) req st)) = snd (snd (handler e req st))"
    using handler_unlink by blast
  show "tmpfiles (fst (snd (handler e req st))) = tmpfiles st"
    if "originForbidden e req \<or> \<not> fst (checkRateLimit (now e) (clientIp req) (rateLimitMap st))
        \<or> multipart req = ParseError"
  proof (cases "originForbidden e req")
    case True
    then show ?thesis using post by (simp add: handler_forbidden)
  next
    case False
    obtain allowed m where rl: "checkRateLimit (now e) (clientIp req) (rateLimitMap st) = (allowed, m)"
      by (cases "checkRateLimit (now e) (clientIp req) (rateLimitMap st)")
    show ?thesis
    proof (cases allowed)
      case True
      then have pe: "multipart req = ParseError" using that False rl by simp
      have rl': "checkRateLimit (now e) (clientIp req) (rateLimitMap st) = (True, m)"
        using rl True by simp
      show ?thesis
        using handler_parse_error [OF post False rl' pe] by simp
    next
      case no: False
      have rl': "checkRateLimit (now e) (clientIp req) (rateLimitMap st) = (False, m)"
        using rl no by simp
      show ?thesis
        using handler_limited [OF post False rl'] by simp
    qed
  qed
  assume run: "multipart req = Parsed flds fls \<and> \<not> originForbidden e req \<and>
        fst (checkRateLimit (now e) (clientIp req) (rateLimitMap st))"
  obtain m where rl: "checkRateLimit (now e) (clientIp req) (rateLimitMap st) = (True, m)"
    using run by (cases "checkRateLimit (now e) (clientIp req) (rateLimitMap st)") auto
  have h: "tmpfiles (fst (snd (handler e req st))) =
      cleanupTempFiles e (Some fls) (tmpfiles st \<union> set (map filepath (allFiles fls)))"
    using handler_parsed [of req e st m flds fls] post rl run by simp
  show eq: "tmpfiles (fst (snd (handler e req st))) =
          (tmpfiles st \<union> filepath ` set (allFiles fls))
            - {p \<in> filepath ` set (allFiles fls). \<not> unlink_fails e p}"
    unfolding h by (simp add: cleanupTempFiles_def cleanupEntries_set)
  show "\<forall>f \<in> set (allFiles fls). \<not> unlink_fails e (filepath f) \<longrightarrow>
            filepath f \<notin> tmpfiles (fst (snd (handler e req st)))"
    unfolding eq by blast
qed

lemma sampleForm_facts:
  "httpMethod sampleForm = js ''POST''"
  "multipart sampleForm = Parsed sampleFields sampleFiles"
  "\<not> originForbidden (sampleEnv\<lparr>now := t\<rparr>) sampleForm"
  "clientIp sampleForm = sampleIp"
  by (simp_all add: sampleForm_def sample_clientIp sample_allowed) (simp_all add: sampleRequest_def)

lemma allFiles_sample: "allFiles sampleFiles = [fileA, fileB, fileC]"
  by (simp add: allFiles_def sampleFiles_def)

lemma sample_paths:
  "filepath fileA = js ''/tmp/a''" "filepath fileB = js ''/tmp/b''" "filepath fileC = js ''/tmp/c''"
  "js ''/tmp/a'' \<noteq> js ''/tmp/c''" "js ''/tmp/b'' \<noteq> js ''/tmp/c''" "js ''/tmp/a'' \<noteq> js ''/tmp/b''"
  by (simp_all add: fileA_def fileB_def fileC_def js_def)

theorem cleanup_on_every_path_witness:
  "tmpfiles (fst (snd (handler sampleEnv sampleForm freshState))) = {}
   \<and> tmpfiles (fst (snd (handler (sampleEnv\<lparr>unlink_fails := (\<lambda>p. p = js ''/tmp/c'')\<rparr>)
        sampleForm freshState))) = {js ''/tmp/c''}
   \<and> fst (handler (sampleEnv\<lparr>unlink_fails := (\<lambda>p. p = js ''/tmp/c'')\<rparr>) sampleForm freshState) =
       fst (handler sampleEnv sampleForm freshState)
   \<and> tmpfiles (fst (snd (handler sampleEnv
        (sampleRequest (js ''POST'') evilOrigin (Parsed sampleFields sampleFiles)) freshState))) = {}"
proof -
  let ?u = "\<lambda>p. p = js ''/tmp/c''"
  let ?e = "sampleEnv\<lparr>unlink_fails := ?u\<rparr>"
  let ?evil = "sampleRequest (js ''POST'') evilOrigin (Parsed sampleFields sampleFiles)"
  have orig: "\<not> originForbidden sampleEnv sampleForm"
    using sampleForm_facts(3) [of 0] by (simp add: sampleEnv_now)
  have orig': "\<not> originForbidden ?e sampleForm"
    using orig by (simp add: originForbidden_unlink)
  have rl: "fst (checkRateLimit (now sampleEnv) (clientIp sampleForm) (rateLimitMap freshState))"
    "fst (checkRateLimit (now ?e) (clientIp sampleForm) (rateLimitMap freshState))"
    by (simp_all add: checkRateLimit_def freshState_def)
  have nofail: "unlink_fails sampleEnv = (\<lambda>p. False)" "tmpfiles freshState = {}"
    by (simp_all add: sampleEnv_def freshState_def)
  have c1: "tmpfiles (fst (snd (handler sampleEnv sampleForm freshState))) = {}"
    using cleanup_on_every_path [of sampleForm sampleFields sampleFiles sampleEnv freshState ?u]
      sampleForm_facts(1,2) orig rl(1)
    by (auto simp: nofail allFiles_sample)
  have c2: "tmpfiles (fst (snd (handler ?e sampleForm freshState))) = {js ''/tmp/c''}"
    using cleanup_on_every_path [of sampleForm sampleFields sampleFiles ?e freshState ?u]
      sampleForm_facts(1,2) orig' rl(2)
    by (auto simp: nofail allFiles_sample sample_paths)
  have c3: "fst (handler ?e sampleForm freshState) = fst (handler sampleEnv sampleForm freshState)"
    using cleanup_on_every_path [of sampleForm sampleFields sampleFiles sampleEnv freshState ?u]
      sampleForm_facts(1)
    by blast
  have evil: "httpMethod ?evil = js ''POST''" "originForbidden sampleEnv ?evil"
    using not_allowed_forbidden [OF evil_not_allowed [of "js ''POST''" "Parsed sampleFields sampleFiles"]]
    by (simp_all add: sampleRequest_def)
  have c4: "tmpfiles (fst (snd (handler sampleEnv ?evil freshState))) = {}"
    using cleanup_on_every_path [of ?evil sampleFields sampleFiles sampleEnv freshState ?u] evil
    by (simp add: nofail)
  show ?thesis using c1 c2 c3 c4 by blast
qed

section \<open>Uploads and the ticket call\<close>

lemma uploadArray_result:
  "uploadArray e fs (ups, rejs, calls) =
     (ups @ List.map_filter (uploadAttachmentToGorgias e) fs,
      rejs @ map (\<lambda>f. \<lparr>filename = originalFilename f, reason = js ''Failed to upload attachment: 500 boom''\<rparr>)
               (filter (uploadFails e) fs),
      calls @ map UploadCall fs)"
proof (induction fs arbitrary: ups rejs calls)
  case Nil
  show ?case by simp
next
  case (Cons f fs)
  show ?case
    by (cases "uploadAttachmentToGorgias e f")
       (simp_all add: Cons.IH uploadFails_def)
qed

lemma map_filter_app:
  "List.map_filter f (xs @ ys) = List.map_filter f xs @ List.map_filter f ys"
  by (simp add: List.map_filter_def)

lemma uploadEntries_result:
  "uploadEntries e fls (ups, rejs, calls) =
     (ups @ List.map_filter (uploadAttachmentToGorgias e) (allFiles fls),
      rejs @ map (\<lambda>f. \<lparr>filename = originalFilename f, reason = js ''Failed to upload attachment: 500 boom''\<rparr>)
               (filter (uploadFails e) (allFiles fls)),
      calls @ map UploadCall (allFiles fls))"
proof (induction fls arbitrary: ups rejs calls)
  case Nil
  show ?case by (simp add: allFiles_def)
next
  case (Cons entry fls)
  obtain fieldName fileOrFiles where entry: "entry = (fieldName, fileOrFiles)" by (cases entry)
  show ?case
    unfolding entry
    by (simp add: uploadArray_result Cons.IH allFiles_def map_filter_app)
qed

lemma uploadEntries_start:
  "uploadEntries e fls ([], [], calls) =
     (uploadedOf e fls, rejectedOf e fls, calls @ map UploadCall (allFiles fls))"
  by (simp add: uploadEntries_result uploadedOf_def rejectedOf_def)





lemma ticketStage_result:
  "ticketStage e flds fls calls =
     (ticketResponse e
        (buildPayload e flds
          (generateGenericTicketBody (orElse (getField flds (js ''formType'')) []) flds)
          (uploadedOf e fls))
        (length (uploadedOf e fls)) (length (rejectedOf e fls)),
      calls @ map UploadCall (allFiles fls) @
        [TicketCall (buildPayload e flds
          (generateGenericTicketBody (orElse (getField flds (js ''formType'')) []) flds)
          (uploadedOf e fls))])"
  by (simp add: ticketStage_def uploadEntries_start Let_def)

lemma submit_reaches_upload:
  assumes "validationError e flds = None"
    and "\<not> (captchaChecked e (sanitizeSubject flds) \<and> turnstileRejects e)"
  shows "submit e flds fls =
     (ticketResponse e (payloadOf e flds fls) (length (uploadedOf e fls)) (length (rejectedOf e fls)),
      captchaCalls e flds @ map UploadCall (allFiles fls) @ [TicketCall (payloadOf e flds fls)])"
  using assms
  by (auto simp: submit_def Let_def ticketStage_result payloadOf_def captchaCalls_def)

lemma submit_stopped:
  assumes "validationError e flds \<noteq> None \<or> (captchaChecked e (sanitizeSubject flds) \<and> turnstileRejects e)"
  shows "(\<exists>code msg. fst (submit e flds fls) = (code, ErrorBody msg))
         \<and> (\<forall>p. TicketCall p \<notin> set (snd (submit e flds fls)))
         \<and> (\<forall>f. UploadCall f \<notin> set (snd (submit e flds fls)))"
proof (cases "validationError e flds")
  case None
  then show ?thesis using assms by (simp add: submit_def Let_def)
next
  case (Some a)
  obtain code msg where "a = (code, msg)" by (cases a)
  then show ?thesis using Some by (simp add: submit_def)
qed




lemma handler_calls_parsed:
  assumes "c \<in> set (snd (snd (handler e req st)))"
  shows "\<exists>flds fls. multipart req = Parsed flds fls
           \<and> c \<in> set (snd (submit e flds fls))
           \<and> status (fst (handler e req st)) = fst (fst (submit e flds fls))
           \<and> body (fst (handler e req st)) = snd (fst (submit e flds fls))"
  using assms
  by (simp add: handler_def Let_def split: if_splits prod.splits parse_result.splits)

lemma sample_email: "EMAIL_REGEX_test (js ''jane@example.com'')"
  by (simp add: EMAIL_REGEX_test_def js_def noSpaceAt_def isWhiteSpace_def upt_rec)

lemma sample_validation: "validationError (sampleEnvWith answer) sampleFields = None"
  by (simp add: validationError_def credentialsMissing_def sampleEnvWith_def sampleEnv_def truthy_def
      requiredMissing_def getField_def sampleFields_def orElse_def orStr_def ALLOWED_FORM_TYPES_def
      tooLong_def MAX_FIELD_LENGTH_def sample_email) (simp add: js_def)

lemma sample_no_captcha: "\<not> captchaChecked (sampleEnvWith answer) flds"
  by (simp add: captchaChecked_def sampleEnvWith_def sampleEnv_def truthy_def)




lemma sampleWith_facts:
  "\<not> originForbidden (sampleEnvWith answer) sampleForm"
  "\<not> originForbidden (sampleEnvWith answer) renamedForm"
  "fst (checkRateLimit (now (sampleEnvWith answer)) (clientIp sampleForm) (rateLimitMap freshState))"
  "fst (checkRateLimit (now (sampleEnvWith answer)) (clientIp renamedForm) (rateLimitMap freshState))"
  "httpMethod renamedForm = js ''POST''"
  by (simp_all add: originForbidden_def sampleEnvWith_def sampleEnv_def sampleForm_def renamedForm_def
      sampleRequest_def checkRateLimit_def freshState_def)
     (simp_all add: shopOrigin_def js_def)

lemma handler_reaches_upload:
  assumes "httpMethod req = js ''POST''" "\<not> originForbidden e req"
    "fst (checkRateLimit (now e) (clientIp req) (rateLimitMap st))"
    "multipart req = Parsed flds fls" "validationError e flds = None"
    "\<not> (captchaChecked e (sanitizeSubject flds) \<and> turnstileRejects e)"
  shows "status (fst (handler e req st)) =
           fst (ticketResponse e (payloadOf e flds fls) (length (uploadedOf e fls)) (length (rejectedOf e fls)))"
    and "body (fst (handler e req st)) =
           snd (ticketResponse e (payloadOf e flds fls) (length (uploadedOf e fls)) (length (rejectedOf e fls)))"
    and "snd (snd (handler e req st)) =
           captchaCalls e flds @ map UploadCall (allFiles fls) @ [TicketCall (payloadOf e flds fls)]"
proof -
  obtain m where rl: "checkRateLimit (now e) (clientIp req) (rateLimitMap st) = (True, m)"
    using assms(3) by (cases "checkRateLimit (now e) (clientIp req) (rateLimitMap st)") auto
  note h = handler_parsed [OF assms(1,2) rl assms(4)]
  note s = submit_reaches_upload [OF assms(5,6), of fls]
  show "status (fst (handler e req st)) =
           fst (ticketResponse e (payloadOf e flds fls) (length (uploadedOf e fls)) (length (rejectedOf e fls)))"
    by (simp add: h s)
  show "body (fst (handler e req st)) =
           snd (ticketResponse e (payloadOf e flds fls) (length (uploadedOf e fls)) (length (rejectedOf e fls)))"
    by (simp add: h s)
  show "snd (snd (handler e req st)) =
           captchaCalls e flds @ map UploadCall (allFiles fls) @ [TicketCall (payloadOf e flds fls)]"
    by (simp add: h s)
qed











section \<open>A ticket service that fails\<close>

lemma captchaCalls_no_ticket: "TicketCall p \<notin> set (captchaCalls e flds)"
  by (simp add: captchaCalls_def Let_def)

lemma submit_ticket_call:
  assumes "TicketCall p \<in> set (snd (submit e flds fls))"
  shows "p = payloadOf e flds fls
         \<and> fst (submit e flds fls) =
             ticketResponse e (payloadOf e flds fls) (length (uploadedOf e fls)) (length (rejectedOf e fls))"
proof (cases "validationError e flds \<noteq> None \<or> (captchaChecked e (sanitizeSubject flds) \<and> turnstileRejects e)")
  case True
  then show ?thesis using submit_stopped [of e flds fls] assms by blast
next
  case False
  then have v: "validationError e flds = None"
    and c: "\<not> (captchaChecked e (sanitizeSubject flds) \<and> turnstileRejects e)"
    by blast+
  note s = submit_reaches_upload [OF v c, of fls]
  have "TicketCall p \<in> set (captchaCalls e flds @ map UploadCall (allFiles fls) @
      [TicketCall (payloadOf e flds fls)])"
    using assms by (simp only: s snd_conv)
  then have "p = payloadOf e flds fls"
    using captchaCalls_no_ticket [of p e flds] by auto
  then show ?thesis by (simp add: s)
qed

lemma ticketResponse_not_ok:
  "ticket_fetch e p = FetchResponse code (Some text) \<Longrightarrow> \<not> ok code \<Longrightarrow>
   ticketResponse e p a b = (502, ErrorBody ticketFailed)"
  by (simp add: ticketResponse_def)

text \<open>
  The hardened handler. When it has posted a ticket and the ticket service answers with a
  status outside 200 to 299 and a body that can be read, the handler answers 502 with the fixed message
  \<open>Failed to submit your inquiry. Please try again later.\<close> and nothing else: the body
  is that constant whatever the status and the body text of the service, the
  credentials and the subdomain are.
\<close>

theorem upstream_failure_bad_gateway:
  "TicketCall p \<in> set (snd (snd (handler e req st))) \<and>
   ticket_fetch e p = FetchResponse code (Some text) \<and> \<not> ok code \<longrightarrow>
     status (fst (handler e req st)) = 502
   \<and> body (fst (handler e req st)) =
       ErrorBody (js ''Failed to submit your inquiry. Please try again later.'')"
proof (intro impI)
  assume a: "TicketCall p \<in> set (snd (snd (handler e req st))) \<and>
   ticket_fetch e p = FetchResponse code (Some text) \<and> \<not> ok code"
  then obtain flds fls where c: "TicketCall p \<in> set (snd (submit e flds fls))"
    and s: "status (fst (handler e req st)) = fst (fst (submit e flds fls))"
    and b: "body (fst (handler e req st)) = snd (fst (submit e flds fls))"
    using handler_calls_parsed [of "TicketCall p" e req st] by blast
  have p: "p = payloadOf e flds fls"
    and r: "fst (submit e flds fls) =
             ticketResponse e (payloadOf e flds fls) (length (uploadedOf e fls)) (length (rejectedOf e fls))"
    using submit_ticket_call [OF c] by blast+
  have "fst (submit e flds fls) = (502, ErrorBody ticketFailed)"
    unfolding r using a p by (intro ticketResponse_not_ok) auto
  then show "status (fst (handler e req st)) = 502
   \<and> body (fst (handler e req st)) =
       ErrorBody (js ''Failed to submit your inquiry. Please try again later.'')"
    by (simp add: s b ticketFailed_def)
qed

theorem upstream_failure_bad_gateway_witness:
  "TicketCall (payloadOf (sampleEnvWith (\<lambda>p. FetchResponse 503 (Some (js ''upstream: agent@acme.example locked''))))
       sampleFields sampleFiles)
     \<in> set (snd (snd (handler (sampleEnvWith (\<lambda>p. FetchResponse 503 (Some (js ''upstream: agent@acme.example locked''))))
          sampleForm freshState)))
   \<and> status (fst (handler (sampleEnvWith (\<lambda>p. FetchResponse 503 (Some (js ''upstream: agent@acme.example locked''))))
        sampleForm freshState)) = 502
   \<and> body (fst (handler (sampleEnvWith (\<lambda>p. FetchResponse 503 (Some (js ''upstream: agent@acme.example locked''))))
        sampleForm freshState)) =
       ErrorBody (js ''Failed to submit your inquiry. Please try again later.'')"
proof -
  let ?a = "\<lambda>p :: ticketPayload. FetchResponse 503 (Some (js ''upstream: agent@acme.example locked''))"
  let ?e = "sampleEnvWith ?a"
  let ?p = "payloadOf ?e sampleFields sampleFiles"
  have nc: "\<not> (captchaChecked ?e (sanitizeSubject sampleFields) \<and> turnstileRejects ?e)"
    using sample_no_captcha [of ?a] by simp
  have calls: "snd (snd (handler ?e sampleForm freshState)) =
      captchaCalls ?e sampleFields @ map UploadCall (allFiles sampleFiles) @ [TicketCall ?p]"
    using handler_reaches_upload(3) [OF sampleForm_facts(1) sampleWith_facts(1) sampleWith_facts(3)
        sampleForm_facts(2) sample_validation nc] .
  have mem: "TicketCall ?p \<in> set (snd (snd (handler ?e sampleForm freshState)))"
    unfolding calls by simp
  have tf: "ticket_fetch ?e ?p = FetchResponse 503 (Some (js ''upstream: agent@acme.example locked''))"
    by (simp add: sampleEnvWith_def)
  have nok: "\<not> ok 503" by (simp add: ok_def)
  show ?thesis
    using upstream_failure_bad_gateway [of ?p ?e sampleForm freshState 503
        "js ''upstream: agent@acme.example locked''"] mem tf nok
    by blast
qed

lemma ticketResponse_broken_body:
  "ticketResponse (sampleEnvWith brokenBody) p a b = (500, ErrorBody genericError)"
  by (simp add: ticketResponse_def sampleEnvWith_def brokenBody_def ok_def)

text \<open>
  Claim C4 at the inputs where the code departs from it. The ticket service answers 503
  with the body text \<open>upstream: agent@acme.example locked\<close>. The older copy of the
  handler answers 502 and passes the status and the body text of the service on to the
  caller. The hardened handler answers 502 with its fixed message and nothing else;
  but when the body of the 503 cannot be read, \<open>await resp.text()\<close> throws inside the
  \<open>try\<close>, and the hardened handler answers 500 with its generic message, not 502.
\<close>

theorem upstream_failure_leaked:
  "ticketAnswer_agnostic sampleEnv
     (FetchResponse 503 (Some (js ''upstream: agent@acme.example locked''))) (js ''acme'') 2
     [\<lparr>filename = Some (js ''b.png''), reason = js ''Failed to upload attachment: 500 boom''\<rparr>] =
     (502, UpstreamFailure 503 (js ''upstream: agent@acme.example locked''))
   \<and> status (fst (handler (sampleEnvWith (\<lambda>p. FetchResponse 503 (Some (js ''upstream: agent@acme.example locked''))))
        sampleForm freshState)) = 502
   \<and> body (fst (handler (sampleEnvWith (\<lambda>p. FetchResponse 503 (Some (js ''upstream: agent@acme.example locked''))))
        sampleForm freshState)) =
       ErrorBody (js ''Failed to submit your inquiry. Please try again later.'')
   \<and> status (fst (handler (sampleEnvWith brokenBody) sampleForm freshState)) = 500
   \<and> body (fst (handler (sampleEnvWith brokenBody) sampleForm freshState)) =
       ErrorBody (js ''An unexpected error occurred. Please try again later.'')"
proof (intro conjI)
  show "ticketAnswer_agnostic sampleEnv
     (FetchResponse 503 (Some (js ''upstream: agent@acme.example locked''))) (js ''acme'') 2
     [\<lparr>filename = Some (js ''b.png''), reason = js ''Failed to upload attachment: 500 boom''\<rparr>] =
     (502, UpstreamFailure 503 (js ''upstream: agent@acme.example locked''))"
    by (simp add: ticketAnswer_agnostic_def ok_def)
  let ?a = "\<lambda>p :: ticketPayload. FetchResponse 503 (Some (js ''upstream: agent@acme.example locked''))"
  show "status (fst (handler (sampleEnvWith ?a) sampleForm freshState)) = 502"
    using upstream_failure_bad_gateway_witness by blast
  show "body (fst (handler (sampleEnvWith ?a) sampleForm freshState)) =
       ErrorBody (js ''Failed to submit your inquiry. Please try again later.'')"
    using upstream_failure_bad_gateway_witness by blast
  let ?e = "sampleEnvWith brokenBody"
  have nc: "\<not> (captchaChecked ?e (sanitizeSubject sampleFields) \<and> turnstileRejects ?e)"
    using sample_no_captcha [of brokenBody] by simp
  note r = handler_reaches_upload [OF sampleForm_facts(1) sampleWith_facts(1) sampleWith_facts(3)
      sampleForm_facts(2) sample_validation nc]
  show "status (fst (handler ?e sampleForm freshState)) = 500"
    using r(1) by (simp add: ticketResponse_broken_body)
  show "body (fst (handler ?e sampleForm freshState)) =
       ErrorBody (js ''An unexpected error occurred. Please try again later.'')"
    using r(2) by (simp add: ticketResponse_broken_body genericError_def)
qed

section \<open>Tags\<close>

lemma resolveTags_absent: "\<not> truthy tagsField \<Longrightarrow> resolveTags e formType tagsField = [formType]"
  by (simp add: resolveTags_def)

lemma those_map_option:
  "those (map (\<lambda>x. map_option f (g x)) xs) = map_option (map f) (those (map g xs))"
  by (induction xs) (auto simp: option.map_comp comp_def split: option.splits)

lemma resolveTags_array:
  "text \<noteq> [] \<Longrightarrow> JSON_parse e text = Some (JArr elems) \<Longrightarrow>
   those (map String_json elems) = Some names \<Longrightarrow>
   resolveTags e formType (Some text) = map (take 100) names"
  by (simp add: resolveTags_def truthy_def orElse_def orStr_def substring0_def [abs_def]
      those_map_option)

lemma resolveTags_array_throws:
  "text \<noteq> [] \<Longrightarrow> JSON_parse e text = Some (JArr elems) \<Longrightarrow>
   those (map String_json elems) = None \<Longrightarrow>
   resolveTags e formType (Some text) = commaTags formType text"
  by (simp add: resolveTags_def truthy_def orElse_def orStr_def those_map_option)

lemma resolveTags_not_array:
  "text \<noteq> [] \<Longrightarrow> JSON_parse e text = Some v \<Longrightarrow> \<forall>elems. v \<noteq> JArr elems \<Longrightarrow>
   resolveTags e formType (Some text) = [formType]"
  by (cases v) (simp_all add: resolveTags_def truthy_def orElse_def orStr_def)

lemma resolveTags_commas:
  "text \<noteq> [] \<Longrightarrow> JSON_parse e text = None \<Longrightarrow>
   resolveTags e formType (Some text) = commaTags formType text"
  by (simp add: resolveTags_def truthy_def orElse_def orStr_def)

lemma commaTags_cases:
  "commaTags formType text =
     (if filter (\<lambda>t. t \<noteq> []) (map trim (split (ch CHR '','') text)) = [] then [formType]
      else map (take 100) (filter (\<lambda>t. t \<noteq> []) (map trim (split (ch CHR '','') text))))"
  by (simp add: commaTags_def Let_def substring0_def [abs_def])

lemma commaTags_length:
  "length formType \<le> 100 \<Longrightarrow> tag \<in> set (commaTags formType text) \<Longrightarrow> length tag \<le> 100"
  by (auto simp: commaTags_cases split: if_splits)

lemma resolveTags_length:
  "length formType \<le> 100 \<Longrightarrow> tag \<in> set (resolveTags e formType tagsField) \<Longrightarrow> length tag \<le> 100"
proof -
  assume len: "length formType \<le> 100" and mem: "tag \<in> set (resolveTags e formType tagsField)"
  have names: "length tag \<le> 100"
    if "those (map (\<lambda>tag. map_option (substring0 100) (String_json tag)) elems) = Some names"
      and "tag \<in> set names" for elems names
  proof -
    have "those (map String_json elems) \<noteq> None"
      using that(1) by (auto simp: those_map_option)
    then obtain raw where "those (map String_json elems) = Some raw" by auto
    then have "names = map (take 100) raw"
      using that(1) by (simp add: those_map_option substring0_def [abs_def])
    then show ?thesis using that(2) by auto
  qed
  show ?thesis
    using len mem names commaTags_length [OF len]
    by (auto simp: resolveTags_def Let_def split: if_splits option.splits json.splits)
qed

lemma allowed_formType_length: "formType \<in> set ALLOWED_FORM_TYPES \<Longrightarrow> length formType \<le> 100"
  by (auto simp: ALLOWED_FORM_TYPES_def js_def)

text \<open>
  Claim C9 at the input where the code departs from it: the \<open>tags\<close> field holds the text
  of an empty JSON array. The array has no element, and the ticket is posted with no tag
  at all, not with the form type as its single tag. The comma-separated path keeps the
  form type when it finds no tag (the field \<open>,\<close> here), and so does a JSON value that is
  no array (the field \<open>{"id":7}\<close>).
\<close>

theorem empty_tag_array_no_default:
  \<open>sampleParse (js ''[]'') = Some (JArr [])
   \<and> resolveTags sampleEnv (js ''contact-form'') (Some (js ''[]'')) = []
   \<and> tags (payloadOf sampleEnv (sampleFields @ [(js ''tags'', js ''[]'')]) sampleFiles) = []
   \<and> resolveTags sampleEnv (js ''contact-form'') (Some (js '','')) = [js ''contact-form'']
   \<and> resolveTags sampleEnv (js ''contact-form'') (Some (js ''{"id":7}'')) = [js ''contact-form'']\<close>
proof (intro conjI)
  show p: "sampleParse (js ''[]'') = Some (JArr [])"
    by (simp add: sampleParse_def js_def)
  have jp: "JSON_parse sampleEnv = sampleParse" by (simp add: sampleEnv_def)
  have ne: "js ''[]'' \<noteq> []" by (simp add: js_def)
  show r: "resolveTags sampleEnv (js ''contact-form'') (Some (js ''[]'')) = []"
    using resolveTags_array [of "js ''[]''" sampleEnv "[]" "[]" "js ''contact-form''"] ne p
    by (simp add: jp)
  have san: "sanitizeSubject (sampleFields @ [(js ''tags'', js ''[]'')]) = sampleFields @ [(js ''tags'', js ''[]'')]"
    by (simp add: sanitizeSubject_def getField_def sampleFields_def js_def)
  have ft: "orElse (getField (sampleFields @ [(js ''tags'', js ''[]'')]) (js ''formType'')) [] = js ''contact-form''"
    by (simp add: getField_def sampleFields_def orElse_def orStr_def js_def)
  have tg: "getField (sampleFields @ [(js ''tags'', js ''[]'')]) (js ''tags'') = Some (js ''[]'')"
    by (simp add: getField_def sampleFields_def js_def)
  show "tags (payloadOf sampleEnv (sampleFields @ [(js ''tags'', js ''[]'')]) sampleFiles) = []"
    by (simp add: payloadOf_def Let_def san buildPayload_def ft tg r)
  have c: "sampleParse (js '','') = None" "js '','' \<noteq> []"
    by (simp_all add: sampleParse_def js_def)
  show "resolveTags sampleEnv (js ''contact-form'') (Some (js '','')) = [js ''contact-form'']"
    using resolveTags_commas [of "js '',''" sampleEnv "js ''contact-form''"] c
    by (simp add: jp commaTags_cases) (simp add: js_def trim_def)
  have o: \<open>sampleParse (js ''{"id":7}'') = Some (JObj [(js ''id'', JNum (js ''7''))])\<close> \<open>js ''{"id":7}'' \<noteq> []\<close>
    by (simp_all add: sampleParse_def js_def)
  show \<open>resolveTags sampleEnv (js ''contact-form'') (Some (js ''{"id":7}'')) = [js ''contact-form'']\<close>
    using resolveTags_not_array [of \<open>js ''{"id":7}''\<close> sampleEnv "JObj [(js ''id'', JNum (js ''7''))]" "js ''contact-form''"] o
    by (simp add: jp)
qed

end
